theory Spec2Isabelle
  imports Complex_Main
begin

section \<open>JavaScript values used by the Case.dev client\<close>

text \<open>
  The client is TypeScript. An optional property or parameter (\<^verbatim>\<open>string | undefined\<close>) is an
  \<open>option\<close>, with \<open>None\<close> for \<^verbatim>\<open>undefined\<close>. Strings are \<open>string\<close>. Numbers that the
  code only compares or passes on are \<open>real\<close>; HTTP statuses, byte sizes, counts, timer
  delays and timer identifiers are \<open>nat\<close>; the scores that the code multiplies are
  double-precision numbers (\<open>double\<close>, below). Every \<^verbatim>\<open>throw\<close> and every rejected promise
  is a value \<open>Inl e\<close> of a sum type.
\<close>

text \<open>\<^verbatim>\<open>if (s)\<close> on an optional string: \<^verbatim>\<open>undefined\<close> and the empty string are falsy.\<close>

fun truthy :: "string option \<Rightarrow> bool" where
  "truthy None = False"
| "truthy (Some s) = (s \<noteq> [])"

text \<open>\<^verbatim>\<open>a ?? b\<close>: the right operand is taken only when the left one is \<^verbatim>\<open>undefined\<close>
  (or \<^verbatim>\<open>null\<close>); an empty string on the left is kept.\<close>

fun nullish :: "'a option \<Rightarrow> 'a option \<Rightarrow> 'a option" where
  "nullish (Some a) b = Some a"
| "nullish None b = b"

text \<open>\<^verbatim>\<open>a ?? d\<close> with a default \<open>d\<close> that is always defined.\<close>

fun nullish_default :: "'a option \<Rightarrow> 'a \<Rightarrow> 'a" where
  "nullish_default (Some a) d = a"
| "nullish_default None d = d"

text \<open>A value handed to \<^verbatim>\<open>JSON.stringify\<close> as a request body.\<close>

datatype jsvalue =
    JNull
  | JBool bool
  | JNum real
  | JStr string
  | JArr "jsvalue list"
  | JObj "(string \<times> jsvalue) list"

text \<open>\<^verbatim>\<open>body ? ... : undefined\<close> on such a value.\<close>

fun js_truthy :: "jsvalue \<Rightarrow> bool" where
  "js_truthy JNull = False"
| "js_truthy (JBool b) = b"
| "js_truthy (JNum r) = (r \<noteq> 0)"
| "js_truthy (JStr s) = (s \<noteq> [])"
| "js_truthy (JArr xs) = True"
| "js_truthy (JObj kvs) = True"

text \<open>An object literal some of whose properties may be \<^verbatim>\<open>undefined\<close>: serialisation
  leaves those properties out, so the model keeps only the defined ones, in source order.\<close>

fun object_literal :: "(string \<times> jsvalue option) list \<Rightarrow> (string \<times> jsvalue) list" where
  "object_literal [] = []"
| "object_literal ((k, None) # kvs) = object_literal kvs"
| "object_literal ((k, Some v) # kvs) = (k, v) # object_literal kvs"

text \<open>Reading a property of a serialised body.\<close>

fun property :: "string \<Rightarrow> jsvalue \<Rightarrow> jsvalue option" where
  "property k (JObj kvs) = map_of kvs k"
| "property k v = None"

section \<open>Errors\<close>

text \<open>
  The client throws plain \<^verbatim>\<open>Error\<close> objects that differ in their message. Each throw site
  is a constructor carrying the values interpolated into its message:
  \<^item> \<open>ApiKeyNotFound\<close>: \<^verbatim>\<open>Case.dev API key not found. ...\<close> (\<^verbatim>\<open>request\<close>);
  \<^item> \<open>ApiError status text\<close>: \<^verbatim>\<open>Case.dev API error (${status}): ${errorText}\<close>;
  \<^item> \<open>TimedOut timeout\<close>: \<^verbatim>\<open>Case.dev API request timed out after ${timeout}ms\<close>;
  \<^item> \<open>S3UploadFailed status statusText\<close>:
    \<^verbatim>\<open>Failed to upload file to S3: ${status} ${statusText}\<close> (the upload tool);
  \<^item> \<open>Thrown name message\<close>: anything thrown by the runtime (a rejected \<^verbatim>\<open>fetch\<close>, a body
    that does not parse, a file that cannot be read), with the \<^verbatim>\<open>name\<close> property that the
    \<^verbatim>\<open>catch\<close> block of \<^verbatim>\<open>request\<close> inspects.
\<close>

datatype error =
    ApiKeyNotFound
  | ApiError nat string
  | TimedOut nat
  | S3UploadFailed nat string
  | Thrown string string

text \<open>\<^verbatim>\<open>error.name\<close>; an object made by \<^verbatim>\<open>new Error(...)\<close> has the name \<^verbatim>\<open>Error\<close>.\<close>

fun error_name :: "error \<Rightarrow> string" where
  "error_name (Thrown name message) = name"
| "error_name e = ''Error''"

text \<open>The error taxonomy of the specification, read off the throw sites.\<close>

datatype error_class = AuthError | TimeoutError | HttpError | OtherError

fun classify :: "error \<Rightarrow> error_class" where
  "classify ApiKeyNotFound = AuthError"
| "classify (ApiError status body) = HttpError"
| "classify (TimedOut timeout) = TimeoutError"
| "classify (S3UploadFailed status statusText) = HttpError"
| "classify (Thrown name message) = OtherError"

section \<open>Credential resolution: \<^verbatim>\<open>CaseDevClient.getApiKey\<close>\<close>

text \<open>
  The sources \<^verbatim>\<open>getApiKey\<close> reads: the two environment variables, the record returned by
  \<^verbatim>\<open>Auth.get("thurgood")\<close> and the value of
  \<^verbatim>\<open>config.provider?.["thurgood"]?.options?.apiKey\<close>. The modules \<^verbatim>\<open>Auth\<close> and
  \<^verbatim>\<open>Config\<close> are imported by the client; what they return is a parameter here. An auth
  record is of kind \<^verbatim>\<open>api\<close> (with its key) or of another kind.
\<close>

datatype auth_info = Api string | OtherKind

record credential_sources =
  THURGOOD_API_KEY :: "string option"
  CASEDEV_API_KEY :: "string option"
  auth_thurgood :: "auth_info option"
  config_apiKey :: "string option"

definition getApiKey :: "credential_sources \<Rightarrow> string option" where
  "getApiKey src =
     (let envKey = nullish (THURGOOD_API_KEY src) (CASEDEV_API_KEY src) in
      if truthy envKey then envKey
      else
        (case auth_thurgood src of
           Some (Api key) \<Rightarrow> Some key
         | _ \<Rightarrow> (if truthy (config_apiKey src) then config_apiKey src else None)))"

section \<open>The network and the timers\<close>

datatype http_method = GET | POST | PUT | DELETE

datatype response_type = Json | Text | Arraybuffer

text \<open>The body of an exchange: a serialised JSON value, or the bytes of a file.\<close>

datatype payload = JsonText jsvalue | Bytes string

text \<open>
  One call of \<^verbatim>\<open>fetch\<close>. \<open>signal\<close> is the identifier of the timer whose firing aborts the
  exchange, when an abort signal is attached.
\<close>

record fetch_call =
  url :: string
  verb :: http_method
  headers :: "(string \<times> string) list"
  body :: "payload option"
  signal :: "nat option"

text \<open>
  What the program does to the outside world, oldest event first: arming a timer
  (\<^verbatim>\<open>setTimeout\<close>, with the identifier it returns and its delay in milliseconds), starting a
  network exchange, clearing a timer (\<^verbatim>\<open>clearTimeout\<close>), creating a directory
  (\<^verbatim>\<open>fs.mkdir\<close>) and writing a file (\<^verbatim>\<open>fs.writeFile\<close>, with the path and the content).
\<close>

datatype event =
    SetTimeout nat nat
  | Fetch fetch_call
  | ClearTimeout nat
  | Mkdir string
  | WriteFile string string

type_synonym trace = "event list"

text \<open>The network exchanges of a trace, in order.\<close>

fun fetches :: "trace \<Rightarrow> fetch_call list" where
  "fetches [] = []"
| "fetches (Fetch c # tr) = c # fetches tr"
| "fetches (e # tr) = fetches tr"

text \<open>The timers still armed after a trace.\<close>

fun timer_step :: "nat list \<Rightarrow> event \<Rightarrow> nat list" where
  "timer_step ts (SetTimeout i d) = i # ts"
| "timer_step ts (ClearTimeout i) = removeAll i ts"
| "timer_step ts (Fetch c) = ts"
| "timer_step ts (Mkdir dir) = ts"
| "timer_step ts (WriteFile path content) = ts"

definition running :: "trace \<Rightarrow> nat list" where
  "running tr = foldl timer_step [] tr"

text \<open>
  A response as the client reads it: the status line and the outcome of each body reader
  (\<^verbatim>\<open>response.text()\<close>, \<^verbatim>\<open>response.json()\<close>, \<^verbatim>\<open>response.arrayBuffer()\<close>), each of
  which may reject. \<^verbatim>\<open>request<T>\<close> casts the parsed JSON to the caller's \<^verbatim>\<open>T\<close> without
  looking at it; \<open>'a\<close> is that \<^verbatim>\<open>T\<close>.
\<close>

record 'a response =
  status :: nat
  statusText :: string
  read_text :: "error + string"
  read_json :: "error + 'a"
  read_arrayBuffer :: "error + string"

text \<open>\<^verbatim>\<open>response.ok\<close>: the status is in the range 200 to 299.\<close>

definition ok :: "('a, 'b) response_scheme \<Rightarrow> bool" where
  "ok r = (200 \<le> status r \<and> status r \<le> 299)"

text \<open>A \<^verbatim>\<open>fetch\<close> promise resolves with a response or rejects; an abort rejects with an
  error named \<^verbatim>\<open>AbortError\<close>.\<close>

datatype 'a fetch_outcome = Resolved "'a response" | Rejected error

text \<open>
  The environment of one operation: the credential sources, and the remote side as a function
  from the exchanges started so far (the current one last) to the outcome of the current one.
\<close>

record 'a env =
  sources :: credential_sources
  net :: "fetch_call list \<Rightarrow> 'a fetch_outcome"

section \<open>The request executor: \<^verbatim>\<open>CaseDevClient.request\<close>\<close>

definition CASEDEV_API_URL :: string where
  "CASEDEV_API_URL = ''https://api.case.dev''"

record options =
  opt_method :: "http_method option"
  opt_body :: "jsvalue option"
  opt_headers :: "(string \<times> string) list option"
  opt_timeout :: "nat option"
  opt_responseType :: "response_type option"

text \<open>\<^verbatim>\<open>request(endpoint)\<close> with no options argument.\<close>

definition no_options :: options where
  "no_options = \<lparr>opt_method = None, opt_body = None, opt_headers = None,
     opt_timeout = None, opt_responseType = None\<rparr>"

text \<open>What \<^verbatim>\<open>request\<close> resolves with, by response type.\<close>

datatype 'a decoded = JsonData 'a | TextData string | BufferData string

text \<open>An object spread \<^verbatim>\<open>{ ...base, ...extra }\<close>: a later property replaces an earlier one
  of the same name in place, a new one is appended.\<close>

fun set_property :: "string \<Rightarrow> string \<Rightarrow> (string \<times> string) list \<Rightarrow> (string \<times> string) list" where
  "set_property k v [] = [(k, v)]"
| "set_property k v ((k', v') # kvs) =
     (if k = k' then (k, v) # kvs else (k', v') # set_property k v kvs)"

fun spread :: "(string \<times> string) list \<Rightarrow> (string \<times> string) list \<Rightarrow> (string \<times> string) list" where
  "spread base [] = base"
| "spread base ((k, v) # extra) = spread (set_property k v base) extra"

text \<open>The argument of \<^verbatim>\<open>fetch\<close> that \<^verbatim>\<open>request\<close> builds.\<close>

definition request_call :: "string \<Rightarrow> nat \<Rightarrow> string \<Rightarrow> options \<Rightarrow> fetch_call" where
  "request_call apiKey timeoutId endpoint options =
     \<lparr>url = CASEDEV_API_URL @ endpoint,
      verb = nullish_default (opt_method options) GET,
      headers = spread
        [(''Authorization'', ''Bearer '' @ apiKey), (''Content-Type'', ''application/json'')]
        (nullish_default (opt_headers options) []),
      body = (case opt_body options of
                None \<Rightarrow> None
              | Some b \<Rightarrow> (if js_truthy b then Some (JsonText b) else None)),
      signal = Some timeoutId\<rparr>"

text \<open>The part of the \<^verbatim>\<open>try\<close> block after \<^verbatim>\<open>clearTimeout\<close>: the status check and the
  decoding by response type.\<close>

definition decode :: "response_type \<Rightarrow> 'a response \<Rightarrow> error + 'a decoded" where
  "decode responseType r =
     (if \<not> ok r then
        Inl (ApiError (status r)
               (case read_text r of Inl e \<Rightarrow> ''Unknown error'' | Inr errorText \<Rightarrow> errorText))
      else
        (case responseType of
           Arraybuffer \<Rightarrow>
             (case read_arrayBuffer r of Inl e \<Rightarrow> Inl e | Inr data \<Rightarrow> Inr (BufferData data))
         | Text \<Rightarrow> (case read_text r of Inl e \<Rightarrow> Inl e | Inr data \<Rightarrow> Inr (TextData data))
         | Json \<Rightarrow> (case read_json r of Inl e \<Rightarrow> Inl e | Inr data \<Rightarrow> Inr (JsonData data))))"

text \<open>The \<^verbatim>\<open>catch\<close> block, after its \<^verbatim>\<open>clearTimeout\<close>: an error named
  \<^verbatim>\<open>AbortError\<close> becomes the timeout error, any other is thrown again.\<close>

definition rethrow :: "nat \<Rightarrow> error \<Rightarrow> error" where
  "rethrow timeout e = (if error_name e = ''AbortError'' then TimedOut timeout else e)"

text \<open>
  \<^verbatim>\<open>request\<close> takes the trace so far and returns it extended. \<^verbatim>\<open>setTimeout\<close> returns a
  fresh identifier; the model takes the length of the trace, which grows with every timer.
  The \<^verbatim>\<open>log.info\<close> call writes to the log only and is left out.
\<close>

definition request ::
  "'a env \<Rightarrow> trace \<Rightarrow> string \<Rightarrow> options \<Rightarrow> (error + 'a decoded) \<times> trace" where
  "request env tr endpoint options =
     (case getApiKey (sources env) of
        None \<Rightarrow> (Inl ApiKeyNotFound, tr)
      | Some apiKey \<Rightarrow>
          if apiKey = [] then (Inl ApiKeyNotFound, tr)
          else
            (let timeout = nullish_default (opt_timeout options) 30000;
                 responseType = nullish_default (opt_responseType options) Json;
                 timeoutId = length tr;
                 tr1 = tr @ [SetTimeout timeoutId timeout];
                 tr2 = tr1 @ [Fetch (request_call apiKey timeoutId endpoint options)]
             in
               (case net env (fetches tr2) of
                  Rejected e \<Rightarrow> (Inl (rethrow timeout e), tr2 @ [ClearTimeout timeoutId])
                | Resolved r \<Rightarrow>
                    (let tr3 = tr2 @ [ClearTimeout timeoutId] in
                       (case decode responseType r of
                          Inl e \<Rightarrow> (Inl (rethrow timeout e), tr3 @ [ClearTimeout timeoutId])
                        | Inr data \<Rightarrow> (Inr data, tr3))))))"

text \<open>
  The tools call \<^verbatim>\<open>request<T>\<close> without a response type and use what it resolves with
  as the parsed object of type \<^verbatim>\<open>T\<close>. The other two shapes cannot arise on that path (the
  default response type is JSON); the model makes them an error so that the function is total.
\<close>

definition request_json ::
  "'a env \<Rightarrow> trace \<Rightarrow> string \<Rightarrow> options \<Rightarrow> (error + 'a) \<times> trace" where
  "request_json env tr endpoint options =
     (case request env tr endpoint options of
        (Inl e, tr') \<Rightarrow> (Inl e, tr')
      | (Inr (JsonData data), tr') \<Rightarrow> (Inr data, tr')
      | (Inr other, tr') \<Rightarrow> (Inl (Thrown ''TypeError'' ''not a parsed object''), tr'))"

section \<open>Vault search: \<^verbatim>\<open>VaultSearchTool.execute\<close>\<close>

datatype search_method = Hybrid | Fast | Global | Entity | Local | Vector | Graph

fun search_method_name :: "search_method \<Rightarrow> string" where
  "search_method_name Hybrid = ''hybrid''"
| "search_method_name Fast = ''fast''"
| "search_method_name Global = ''global''"
| "search_method_name Entity = ''entity''"
| "search_method_name Local = ''local''"
| "search_method_name Vector = ''vector''"
| "search_method_name Graph = ''graph''"

text \<open>The parameters, as the schema of the tool declares them: \<^verbatim>\<open>top_k\<close> is an optional
  number (the schema admits no NaN), \<^verbatim>\<open>method\<close> an optional member of the enumeration.\<close>

record search_params =
  sp_vault_id :: string
  sp_query :: string
  sp_method :: "search_method option"
  sp_top_k :: "real option"
  sp_object_id :: "string option"

text \<open>\<^verbatim>\<open>filters\<close>: empty unless \<^verbatim>\<open>object_id\<close> is truthy.\<close>

definition search_filters :: "search_params \<Rightarrow> (string \<times> jsvalue) list" where
  "search_filters p =
     (case sp_object_id p of
        None \<Rightarrow> []
      | Some object_id \<Rightarrow> (if object_id \<noteq> [] then [(''object_id'', JStr object_id)] else []))"

text \<open>\<^verbatim>\<open>Math.min(Math.max(params.top_k ?? 10, 1), 100)\<close>.\<close>

definition search_topK :: "search_params \<Rightarrow> real" where
  "search_topK p = min (max (nullish_default (sp_top_k p) 10) 1) 100"

definition search_body :: "search_params \<Rightarrow> jsvalue" where
  "search_body p =
     JObj (object_literal
       [(''query'', Some (JStr (sp_query p))),
        (''method'', Some (JStr (search_method_name (nullish_default (sp_method p) Hybrid)))),
        (''topK'', Some (JNum (search_topK p))),
        (''filters'',
           if length (search_filters p) > 0 then Some (JObj (search_filters p)) else None)])"

definition search_endpoint :: "search_params \<Rightarrow> string" where
  "search_endpoint p = ''/vault/'' @ sp_vault_id p @ ''/search''"

definition search_options :: "search_params \<Rightarrow> options" where
  "search_options p = no_options\<lparr>opt_method := Some POST, opt_body := Some (search_body p)\<rparr>"

text \<open>The response, as the interfaces \<^verbatim>\<open>VaultSearchResult\<close> and
  \<^verbatim>\<open>VaultSearchResponse\<close> declare it, with the fields the tool reads. The tool tests
  \<^verbatim>\<open>chunk_index\<close> against \<^verbatim>\<open>undefined\<close>, so it is optional here.\<close>

text \<open>
  A score is a JavaScript number parsed from the JSON of the response: a double-precision
  number. \<open>Finite m e\<close> is the number \<open>m * 2 ^ e\<close>; a literal too large for a double parses
  to an infinity. JSON has no NaN, and the sign of a zero does not show in the printed
  percentage. The doubles are the values with \<open>\<bar>m\<bar> < 2 ^ 53\<close>, \<open>- 1074 \<le> e\<close> and
  \<open>\<bar>m\<bar> * 2 ^ e < 2 ^ 1024\<close>.
\<close>

datatype double = Finite int int | PosInfinity | NegInfinity

text \<open>The exact value of \<open>Finite m e\<close>.\<close>

definition dyadic :: "int \<Rightarrow> int \<Rightarrow> real" where
  "dyadic m e = (if 0 \<le> e then real_of_int m * 2 ^ nat e else real_of_int m / 2 ^ nat (- e))"

text \<open>The number of binary digits of a positive integer.\<close>

function bit_length :: "int \<Rightarrow> int" where
  "bit_length a = (if a \<le> 0 then 0 else 1 + bit_length (a div 2))"
  by pat_completeness auto
termination
  by (relation "measure nat") auto

declare bit_length.simps [simp del]

definition overflow :: "int \<Rightarrow> double" where
  "overflow m = (if m < 0 then NegInfinity else PosInfinity)"

text \<open>
  The double nearest to the exact value \<open>m * 2 ^ e\<close>, as every arithmetic operation of
  JavaScript delivers it: 53 significant binary digits (fewer below \<open>2 ^ - 1022\<close>, where the
  last digit has the weight \<open>2 ^ - 1074\<close>), a tie goes to the even neighbour, and a result
  that reaches \<open>2 ^ 1024\<close> is an infinity.
\<close>

definition round_to_double :: "int \<Rightarrow> int \<Rightarrow> double" where
  "round_to_double m e =
     (let n = bit_length \<bar>m\<bar>;
          qe = max (e + n - 53) (- 1074)
      in
        if m = 0 then Finite 0 0
        else if qe \<le> e then (if 1024 < n + e then overflow m else Finite m e)
        else
          (let s = nat (qe - e);
               q = \<bar>m\<bar> div 2 ^ s;
               r = \<bar>m\<bar> mod 2 ^ s;
               half = 2 ^ (s - 1);
               q' = (if half < r \<or> (r = half \<and> odd q) then q + 1 else q)
           in
             if 1024 < bit_length q' + qe then overflow m
             else Finite (sgn m * q') qe))"

text \<open>\<^verbatim>\<open>score * 100\<close>: the exact product (100 is \<open>25 * 2 ^ 2\<close>), rounded to a double.\<close>

fun times100 :: "double \<Rightarrow> double" where
  "times100 (Finite m e) = round_to_double (m * 25) (e + 2)"
| "times100 PosInfinity = PosInfinity"
| "times100 NegInfinity = NegInfinity"

text \<open>\<^verbatim>\<open>Math.round\<close>: the integer nearest to the number, the upper one of two equally
  near; it is computed exactly. An infinity stays what it is.\<close>

fun Math_round :: "double \<Rightarrow> double" where
  "Math_round (Finite m e) =
     Finite (if 0 \<le> e then m * 2 ^ nat e
             else (m + 2 ^ (nat (- e) - 1)) div 2 ^ nat (- e)) 0"
| "Math_round PosInfinity = PosInfinity"
| "Math_round NegInfinity = NegInfinity"

record chunk =
  chunk_text :: string
  object_id :: string
  chunk_index :: "nat option"
  score :: "double option"
  hybridScore :: "double option"

record source_document =
  source_id :: string
  source_filename :: string
  source_pageCount :: "nat option"

record search_response =
  response_method :: string
  response_text :: "string option"
  chunks :: "chunk list option"
  response_sources :: "source_document list option"

text \<open>\<^verbatim>\<open>chunk.hybridScore ?? chunk.score ?? 0\<close>.\<close>

definition effective_score :: "chunk \<Rightarrow> double" where
  "effective_score c = nullish_default (nullish (hybridScore c) (score c)) (Finite 0 0)"

text \<open>
  The tool returns a title, metadata and an output text. The model keeps the values that the
  text interpolates, in the order in which the text shows them, and not the text itself. One
  block of the output per chunk: \<^verbatim>\<open>--- Result ${i + 1} (${confidence}% match) ---\<close>, the
  document line when \<^verbatim>\<open>object_id\<close> is truthy, and the text of the chunk.
\<close>

record result_block =
  result_number :: nat
  confidence :: double
  document :: "(string \<times> nat option) option"
  passage :: string

definition render_chunk :: "nat \<Rightarrow> chunk \<Rightarrow> result_block" where
  "render_chunk i c =
     \<lparr>result_number = i + 1,
      confidence = Math_round (times100 (effective_score c)),
      document = (if object_id c \<noteq> [] then Some (object_id c, chunk_index c) else None),
      passage = chunk_text c\<rparr>"

text \<open>The loop \<^verbatim>\<open>for (let i = 0; i < response.chunks.length; i++)\<close>, from index \<open>i\<close> on.\<close>

fun render_chunks :: "nat \<Rightarrow> chunk list \<Rightarrow> result_block list" where
  "render_chunks i [] = []"
| "render_chunks i (c # cs) = render_chunk i c # render_chunks (i + 1) cs"

text \<open>The source lines: file name, identifier, and the page count when it is truthy.\<close>

definition render_source :: "source_document \<Rightarrow> string \<times> string \<times> nat option" where
  "render_source s =
     (source_filename s, source_id s,
      (case source_pageCount s of
         None \<Rightarrow> None
       | Some n \<Rightarrow> (if n \<noteq> 0 then Some n else None)))"

datatype search_result =
    NoResultsFound string
  | SearchResults string "string option" "result_block list" "(string \<times> string \<times> nat option) list"

definition search_output :: "search_response \<Rightarrow> search_result" where
  "search_output response =
     (case chunks response of
        None \<Rightarrow> NoResultsFound (response_method response)
      | Some cs \<Rightarrow>
          if length cs = 0 then NoResultsFound (response_method response)
          else SearchResults (response_method response)
                 (if truthy (response_text response) then response_text response else None)
                 (render_chunks 0 cs)
                 (case response_sources response of
                    None \<Rightarrow> []
                  | Some ss \<Rightarrow> map render_source ss))"

definition VaultSearchTool_execute ::
  "search_response env \<Rightarrow> trace \<Rightarrow> search_params \<Rightarrow> (error + search_result) \<times> trace" where
  "VaultSearchTool_execute env tr params =
     (case request_json env tr (search_endpoint params) (search_options params) of
        (Inl e, tr') \<Rightarrow> (Inl e, tr')
      | (Inr response, tr') \<Rightarrow> (Inr (search_output response), tr'))"

section \<open>Deep research: \<^verbatim>\<open>LegalSearchTool.execute\<close>\<close>

datatype research_mode = FastMode | NormalMode | ProMode

fun research_mode_name :: "research_mode \<Rightarrow> string" where
  "research_mode_name FastMode = ''fast''"
| "research_mode_name NormalMode = ''normal''"
| "research_mode_name ProMode = ''pro''"

record research_params =
  rp_query :: string
  rp_mode :: "research_mode option"

text \<open>\<^verbatim>\<open>params.mode === "pro" ? 360000 : params.mode === "normal" ? 180000 : 60000\<close>.\<close>

definition research_timeout :: "research_params \<Rightarrow> nat" where
  "research_timeout p =
     (if rp_mode p = Some ProMode then 360000
      else if rp_mode p = Some NormalMode then 180000
      else 60000)"

definition research_body :: "research_params \<Rightarrow> jsvalue" where
  "research_body p =
     JObj (object_literal
       [(''instructions'', Some (JStr (rp_query p))),
        (''model'', Some (JStr (research_mode_name (nullish_default (rp_mode p) NormalMode))))])"

definition research_options :: "research_params \<Rightarrow> options" where
  "research_options p =
     no_options\<lparr>opt_method := Some POST, opt_body := Some (research_body p),
       opt_timeout := Some (research_timeout p)\<rparr>"

text \<open>The response: \<^verbatim>\<open>results\<close> may be missing; when present it is the known sections and
  any further ones. The tool prints them; the model returns them as they came.\<close>

record research_response =
  researchId :: string
  model :: string
  results :: "(string \<times> jsvalue) list option"

datatype research_result =
    NoResearchResults
  | ResearchComplete string string "(string \<times> jsvalue) list"

definition LegalSearchTool_execute ::
  "research_response env \<Rightarrow> trace \<Rightarrow> research_params \<Rightarrow> (error + research_result) \<times> trace" where
  "LegalSearchTool_execute env tr params =
     (case request_json env tr ''/search/v1/research'' (research_options params) of
        (Inl e, tr') \<Rightarrow> (Inl e, tr')
      | (Inr response, tr') \<Rightarrow>
          (case results response of
             None \<Rightarrow> (Inr NoResearchResults, tr')
           | Some sections \<Rightarrow>
               (Inr (ResearchComplete (researchId response) (model response) sections), tr')))"

section \<open>Transcription: \<^verbatim>\<open>TranscribeTool.execute\<close>\<close>

datatype transcript_format = FormatJson | FormatText

fun transcript_format_name :: "transcript_format \<Rightarrow> string" where
  "transcript_format_name FormatJson = ''json''"
| "transcript_format_name FormatText = ''text''"

record transcribe_params =
  tp_vault_id :: "string option"
  tp_object_id :: "string option"
  tp_audio_url :: "string option"
  tp_format :: "transcript_format option"
  tp_language_code :: "string option"
  tp_speaker_labels :: "bool option"
  tp_speakers_expected :: "real option"
  tp_word_boost :: "string list option"

text \<open>\<^verbatim>\<open>params.vault_id && params.object_id\<close>, as a condition.\<close>

definition isVaultMode :: "transcribe_params \<Rightarrow> bool" where
  "isVaultMode p = (truthy (tp_vault_id p) \<and> truthy (tp_object_id p))"

definition transcribe_body :: "transcribe_params \<Rightarrow> jsvalue" where
  "transcribe_body p =
     JObj (object_literal
       ((if isVaultMode p then
           [(''vault_id'', map_option JStr (tp_vault_id p)),
            (''object_id'', map_option JStr (tp_object_id p)),
            (''format'',
               Some (JStr (transcript_format_name (nullish_default (tp_format p) FormatJson))))]
         else [(''audio_url'', map_option JStr (tp_audio_url p))])
        @ [(''language_code'',
              if truthy (tp_language_code p) then map_option JStr (tp_language_code p) else None),
           (''speaker_labels'', map_option JBool (tp_speaker_labels p)),
           (''speakers_expected'',
              (case tp_speakers_expected p of
                 None \<Rightarrow> None
               | Some n \<Rightarrow> (if n \<noteq> 0 then Some (JNum n) else None))),
           (''word_boost'', map_option (\<lambda>ws. JArr (map JStr ws)) (tp_word_boost p))]))"

definition transcribe_options :: "transcribe_params \<Rightarrow> options" where
  "transcribe_options p =
     no_options\<lparr>opt_method := Some POST, opt_body := Some (transcribe_body p),
       opt_timeout := Some 30000\<rparr>"

datatype transcription_status = Queued | Processing | Completed | Failed

record transcription_response =
  job_id :: string
  job_status :: transcription_status

text \<open>
  What the tool returns: the result titled \<^verbatim>\<open>Error: Missing parameters\<close> with metadata
  \<^verbatim>\<open>{ error: true }\<close> (returned, not thrown), or the started job with the job identifier,
  its status, and the vault pair in vault mode or the audio URL in direct mode.
\<close>

datatype transcribe_result =
    MissingParameters
  | VaultJobStarted string transcription_status "string option" "string option"
  | UrlJobStarted string transcription_status "string option"

text \<open>The call \<^verbatim>\<open>ctx.metadata\<close> updates the displayed title only and is left out.\<close>

definition TranscribeTool_execute ::
  "transcription_response env \<Rightarrow> trace \<Rightarrow> transcribe_params
     \<Rightarrow> (error + transcribe_result) \<times> trace" where
  "TranscribeTool_execute env tr params =
     (if \<not> isVaultMode params \<and> \<not> truthy (tp_audio_url params) then (Inr MissingParameters, tr)
      else
        (case request_json env tr ''/voice/transcription'' (transcribe_options params) of
           (Inl e, tr') \<Rightarrow> (Inl e, tr')
         | (Inr response, tr') \<Rightarrow>
             if isVaultMode params then
               (Inr (VaultJobStarted (job_id response) (job_status response)
                       (tp_vault_id params) (tp_object_id params)), tr')
             else
               (Inr (UrlJobStarted (job_id response) (job_status response)
                       (tp_audio_url params)), tr')))"

section \<open>Upload: \<^verbatim>\<open>VaultUploadTool.execute\<close>\<close>

text \<open>
  The local side of the tools: the functions of Node's \<^verbatim>\<open>path\<close> and \<^verbatim>\<open>fs\<close> modules
  that the tools call are parameters. Reading a file, reading its size, creating a directory
  and writing a file may fail.
\<close>

record filesystem =
  path_resolve :: "string \<Rightarrow> string"
  path_basename :: "string \<Rightarrow> string"
  path_extname :: "string \<Rightarrow> string"
  path_dirname :: "string \<Rightarrow> string"
  readFile :: "string \<Rightarrow> error + string"
  stat_size :: "string \<Rightarrow> error + nat"
  mkdir :: "string \<Rightarrow> error + unit"
  writeFile :: "string \<Rightarrow> string \<Rightarrow> error + unit"

text \<open>\<^verbatim>\<open>toLowerCase\<close>, on ASCII letters; the keys of the table of extensions are ASCII.\<close>

definition toLowerCase :: "string \<Rightarrow> string" where
  "toLowerCase s =
     map (\<lambda>c. case map_of (zip ''ABCDEFGHIJKLMNOPQRSTUVWXYZ'' ''abcdefghijklmnopqrstuvwxyz'') c of
                None \<Rightarrow> c
              | Some l \<Rightarrow> l) s"

definition contentTypeMap :: "(string \<times> string) list" where
  "contentTypeMap =
     [(''.pdf'', ''application/pdf''),
      (''.png'', ''image/png''),
      (''.jpg'', ''image/jpeg''),
      (''.jpeg'', ''image/jpeg''),
      (''.tiff'', ''image/tiff''),
      (''.tif'', ''image/tiff''),
      (''.docx'', ''application/vnd.openxmlformats-officedocument.wordprocessingml.document''),
      (''.txt'', ''text/plain''),
      (''.mp3'', ''audio/mpeg''),
      (''.wav'', ''audio/wav''),
      (''.m4a'', ''audio/mp4''),
      (''.aac'', ''audio/aac''),
      (''.ogg'', ''audio/ogg''),
      (''.flac'', ''audio/flac''),
      (''.mp4'', ''video/mp4''),
      (''.webm'', ''video/webm''),
      (''.mov'', ''video/quicktime''),
      (''.avi'', ''video/x-msvideo'')]"

definition content_type :: "string \<Rightarrow> string" where
  "content_type ext = nullish_default (map_of contentTypeMap ext) ''application/octet-stream''"

record upload_params =
  up_vault_id :: string
  up_file_path :: string
  up_auto_index :: "bool option"

text \<open>What the tool holds before its first request: the file name, the content type, the
  bytes of the file and its size.\<close>

record local_file =
  filename :: string
  contentType :: string
  fileBuffer :: string
  sizeBytes :: nat

text \<open>The statements of \<^verbatim>\<open>execute\<close> before step 1. A failed read ends the operation
  with the error of the file system.\<close>

definition read_local :: "filesystem \<Rightarrow> upload_params \<Rightarrow> error + local_file" where
  "read_local fs params =
     (let filePath = path_resolve fs (up_file_path params) in
      case readFile fs filePath of
        Inl e \<Rightarrow> Inl e
      | Inr buffer \<Rightarrow>
          (case stat_size fs filePath of
             Inl e \<Rightarrow> Inl e
           | Inr n \<Rightarrow>
               Inr \<lparr>filename = path_basename fs filePath,
                    contentType = content_type (toLowerCase (path_extname fs filePath)),
                    fileBuffer = buffer,
                    sizeBytes = n\<rparr>))"

text \<open>The upload slot, as the interface \<^verbatim>\<open>VaultUploadResponse\<close> declares it.\<close>

record upload_response =
  objectId :: string
  uploadUrl :: string
  expiresIn :: nat
  s3Key :: string
  auto_index :: bool
  next_step :: "string option"

text \<open>Step 1: the request for the presigned upload URL.\<close>

definition slot_endpoint :: "upload_params \<Rightarrow> string" where
  "slot_endpoint p = ''/vault/'' @ up_vault_id p @ ''/upload''"

definition slot_options :: "upload_params \<Rightarrow> local_file \<Rightarrow> options" where
  "slot_options p file =
     no_options\<lparr>opt_method := Some POST,
       opt_body := Some (JObj (object_literal
         [(''filename'', Some (JStr (filename file))),
          (''contentType'', Some (JStr (contentType file))),
          (''auto_index'', Some (JBool (nullish_default (up_auto_index p) True))),
          (''sizeBytes'', Some (JNum (real (sizeBytes file))))]))\<rparr>"

text \<open>Step 2: the transfer to the storage URL, a \<^verbatim>\<open>fetch\<close> of the tool's own, with no
  abort signal and no authorization header. A rejected \<^verbatim>\<open>fetch\<close> propagates; a response
  that is not \<^verbatim>\<open>ok\<close> throws.\<close>

definition transfer_call :: "upload_response \<Rightarrow> local_file \<Rightarrow> fetch_call" where
  "transfer_call uploadResponse file =
     \<lparr>url = uploadUrl uploadResponse,
      verb = PUT,
      headers = [(''Content-Type'', contentType file)],
      body = Some (Bytes (fileBuffer file)),
      signal = None\<rparr>"

definition transfer ::
  "'a env \<Rightarrow> trace \<Rightarrow> upload_response \<Rightarrow> local_file \<Rightarrow> (error + unit) \<times> trace" where
  "transfer env tr uploadResponse file =
     (let tr' = tr @ [Fetch (transfer_call uploadResponse file)] in
      case net env (fetches tr') of
        Rejected e \<Rightarrow> (Inl e, tr')
      | Resolved s3Response \<Rightarrow>
          if \<not> ok s3Response then
            (Inl (S3UploadFailed (status s3Response) (statusText s3Response)), tr')
          else (Inr (), tr'))"

text \<open>Step 3: the ingestion request, inside its \<^verbatim>\<open>try\<close>/\<^verbatim>\<open>catch\<close>.\<close>

definition ingest_endpoint :: "upload_params \<Rightarrow> upload_response \<Rightarrow> string" where
  "ingest_endpoint p uploadResponse =
     ''/vault/'' @ up_vault_id p @ ''/ingest/'' @ objectId uploadResponse"

definition ingest_options :: options where
  "ingest_options = no_options\<lparr>opt_method := Some POST\<rparr>"

datatype ingest_status = Skipped | Started | FailedToStart

fun ingest_status_text :: "ingest_status \<Rightarrow> string" where
  "ingest_status_text Skipped = ''skipped''"
| "ingest_status_text Started = ''started''"
| "ingest_status_text FailedToStart = ''failed to start''"

definition trigger_ingestion ::
  "'a env \<Rightarrow> trace \<Rightarrow> upload_params \<Rightarrow> upload_response \<Rightarrow> ingest_status \<times> trace" where
  "trigger_ingestion env tr p uploadResponse =
     (if truthy (next_step uploadResponse) \<and> auto_index uploadResponse then
        (case request env tr (ingest_endpoint p uploadResponse) ingest_options of
           (Inl e, tr') \<Rightarrow> (FailedToStart, tr')
         | (Inr data, tr') \<Rightarrow> (Started, tr'))
      else (Skipped, tr))"

text \<open>The result: the metadata and the values shown in the output text; the size shown is
  \<^verbatim>\<open>Math.round(stats.size / 1024)\<close>, and the ingestion line is the status text.\<close>

record upload_result =
  result_objectId :: string
  result_vaultId :: string
  result_filename :: string
  result_autoIndex :: bool
  result_sizeKB :: nat
  result_ingestion :: string

definition upload_output ::
  "upload_params \<Rightarrow> local_file \<Rightarrow> upload_response \<Rightarrow> ingest_status \<Rightarrow> upload_result" where
  "upload_output params file uploadResponse ingestStatus =
     \<lparr>result_objectId = objectId uploadResponse,
      result_vaultId = up_vault_id params,
      result_filename = filename file,
      result_autoIndex = auto_index uploadResponse,
      result_sizeKB = (sizeBytes file + 512) div 1024,
      result_ingestion = ingest_status_text ingestStatus\<rparr>"

definition VaultUploadTool_execute ::
  "upload_response env \<Rightarrow> filesystem \<Rightarrow> trace \<Rightarrow> upload_params
     \<Rightarrow> (error + upload_result) \<times> trace" where
  "VaultUploadTool_execute env fs tr params =
     (case read_local fs params of
        Inl e \<Rightarrow> (Inl e, tr)
      | Inr file \<Rightarrow>
          (case request_json env tr (slot_endpoint params) (slot_options params file) of
             (Inl e, tr1) \<Rightarrow> (Inl e, tr1)
           | (Inr uploadResponse, tr1) \<Rightarrow>
               (case transfer env tr1 uploadResponse file of
                  (Inl e, tr2) \<Rightarrow> (Inl e, tr2)
                | (Inr done, tr2) \<Rightarrow>
                    (case trigger_ingestion env tr2 params uploadResponse of
                       (ingestStatus, tr3) \<Rightarrow>
                         (Inr (upload_output params file uploadResponse ingestStatus), tr3)))))"

section \<open>The other operations\<close>

text \<open>
  The remaining tools of the client. Each one builds a request, awaits \<^verbatim>\<open>request\<close> and
  returns a title, metadata and an output text made from the response. The model of a result
  is the \<^verbatim>\<open>return\<close> statement taken, with the values the statement is built from; the
  texts are not rendered. Numbers of a response that are only passed on are of type
  \<open>double\<close>, counts are \<open>nat\<close>. Calls of \<^verbatim>\<open>ctx.metadata\<close>, which update the displayed
  title only, are left out.
\<close>

text \<open>The value of an optional string when it is truthy.\<close>

fun truthy_value :: "string option \<Rightarrow> string option" where
  "truthy_value None = None"
| "truthy_value (Some s) = (if s \<noteq> [] then Some s else None)"

subsection \<open>\<^verbatim>\<open>OcrProcessTool.execute\<close>\<close>

datatype ocr_engine = Doctr | Paddleocr

fun ocr_engine_name :: "ocr_engine \<Rightarrow> string" where
  "ocr_engine_name Doctr = ''doctr''"
| "ocr_engine_name Paddleocr = ''paddleocr''"

record ocr_process_params =
  ocr_document_url :: string
  ocr_engine :: "ocr_engine option"
  ocr_document_id :: "string option"

datatype ocr_job_status = OcrPending | OcrProcessing | OcrCompleted | OcrFailed

record ocr_process_response =
  ocr_process_id :: string
  ocr_process_status :: ocr_job_status

definition ocr_process_options :: "ocr_process_params \<Rightarrow> options" where
  "ocr_process_options p =
     no_options\<lparr>opt_method := Some POST,
       opt_body := Some (JObj (object_literal
         [(''document_url'', Some (JStr (ocr_document_url p))),
          (''engine'', Some (JStr (ocr_engine_name (nullish_default (ocr_engine p) Doctr)))),
          (''document_id'', map_option JStr (ocr_document_id p))]))\<rparr>"

text \<open>The job identifier, the status, the document URL and the engine.\<close>

datatype ocr_process_result = OcrJobSubmitted string ocr_job_status string string

definition OcrProcessTool_execute ::
  "ocr_process_response env \<Rightarrow> trace \<Rightarrow> ocr_process_params
     \<Rightarrow> (error + ocr_process_result) \<times> trace" where
  "OcrProcessTool_execute env tr params =
     (case request_json env tr ''/ocr/v1/process'' (ocr_process_options params) of
        (Inl e, tr') \<Rightarrow> (Inl e, tr')
      | (Inr response, tr') \<Rightarrow>
          (Inr (OcrJobSubmitted (ocr_process_id response) (ocr_process_status response)
                  (ocr_document_url params)
                  (ocr_engine_name (nullish_default (ocr_engine params) Doctr))), tr'))"

subsection \<open>\<^verbatim>\<open>OcrStatusTool.execute\<close>\<close>

record ocr_status_response =
  ocr_status :: ocr_job_status
  ocr_progress :: "double option"
  ocr_pages :: "nat option"
  ocr_message :: "string option"
  ocr_completedAt :: "string option"

text \<open>The job identifier of the call, the status, the progress and the pages as they came,
  and the message and the completion time when they are truthy.\<close>

datatype ocr_status_result =
  OcrStatus string ocr_job_status "double option" "nat option" "string option" "string option"

definition OcrStatusTool_execute ::
  "ocr_status_response env \<Rightarrow> trace \<Rightarrow> string \<Rightarrow> (error + ocr_status_result) \<times> trace" where
  "OcrStatusTool_execute env tr jobId =
     (case request_json env tr (''/ocr/v1/'' @ jobId) no_options of
        (Inl e, tr') \<Rightarrow> (Inl e, tr')
      | (Inr response, tr') \<Rightarrow>
          (Inr (OcrStatus jobId (ocr_status response) (ocr_progress response)
                  (ocr_pages response) (truthy_value (ocr_message response))
                  (truthy_value (ocr_completedAt response))), tr'))"

subsection \<open>\<^verbatim>\<open>OcrDownloadTool.execute\<close>\<close>

datatype ocr_format = OcrText | OcrJson | OcrPdf

fun ocr_format_name :: "ocr_format \<Rightarrow> string" where
  "ocr_format_name OcrText = ''text''"
| "ocr_format_name OcrJson = ''json''"
| "ocr_format_name OcrPdf = ''pdf''"

record ocr_download_params =
  od_job_id :: string
  od_format :: "ocr_format option"
  od_save_to :: "string option"

record ocr_download_response =
  od_content :: string
  od_pages :: "nat option"

text \<open>
  The results: the one titled \<^verbatim>\<open>Error: save_to required for PDF\<close> with metadata
  \<^verbatim>\<open>{ error: true }\<close> (returned, not thrown); the PDF saved, with the job, the path and
  the pages; the text or JSON saved, with the job, the format, the path and the content; the
  content returned, with the job, the format and the content.
\<close>

datatype ocr_download_result =
    SaveToRequired
  | OcrPdfSaved string string "nat option"
  | OcrSaved string ocr_format string string
  | OcrContent string ocr_format string

text \<open>
  \<^verbatim>\<open>Buffer.from(response.content, "base64")\<close> and \<^verbatim>\<open>JSON.stringify(response, null, 2)\<close>
  are functions of the runtime and parameters here (\<open>base64\<close>, \<open>stringify\<close>). After the
  first test, \<^verbatim>\<open>params.save_to\<close> is truthy whenever the format is \<^verbatim>\<open>pdf\<close>.
\<close>

definition ocr_download_output ::
  "filesystem \<Rightarrow> (string \<Rightarrow> string) \<Rightarrow> (ocr_download_response \<Rightarrow> string) \<Rightarrow> trace
     \<Rightarrow> ocr_download_params \<Rightarrow> ocr_format \<Rightarrow> ocr_download_response
     \<Rightarrow> (error + ocr_download_result) \<times> trace" where
  "ocr_download_output fs base64 stringify tr params format response =
     (case truthy_value (od_save_to params) of
        Some save_to \<Rightarrow>
          if format = OcrPdf then
            (let pdfContent = base64 (od_content response);
                 tr' = tr @ [WriteFile save_to pdfContent]
             in case writeFile fs save_to pdfContent of
                  Inl e \<Rightarrow> (Inl e, tr')
                | Inr done \<Rightarrow>
                    (Inr (OcrPdfSaved (od_job_id params) save_to (od_pages response)), tr'))
          else
            (let content = (if format = OcrJson then stringify response else od_content response);
                 tr' = tr @ [WriteFile save_to content]
             in case writeFile fs save_to content of
                  Inl e \<Rightarrow> (Inl e, tr')
                | Inr done \<Rightarrow> (Inr (OcrSaved (od_job_id params) format save_to content), tr'))
      | None \<Rightarrow>
          (let content = (if format = OcrJson then stringify response else od_content response)
           in (Inr (OcrContent (od_job_id params) format content), tr)))"

definition OcrDownloadTool_execute ::
  "ocr_download_response env \<Rightarrow> filesystem \<Rightarrow> (string \<Rightarrow> string)
     \<Rightarrow> (ocr_download_response \<Rightarrow> string) \<Rightarrow> trace \<Rightarrow> ocr_download_params
     \<Rightarrow> (error + ocr_download_result) \<times> trace" where
  "OcrDownloadTool_execute env fs base64 stringify tr params =
     (let format = nullish_default (od_format params) OcrText in
      if format = OcrPdf \<and> \<not> truthy (od_save_to params) then (Inr SaveToRequired, tr)
      else
        (case request_json env tr
                (''/ocr/v1/'' @ od_job_id params @ ''/download/'' @ ocr_format_name format)
                no_options of
           (Inl e, tr') \<Rightarrow> (Inl e, tr')
         | (Inr response, tr') \<Rightarrow>
             ocr_download_output fs base64 stringify tr' params format response))"

subsection \<open>\<^verbatim>\<open>TranscribeStatusTool.execute\<close>\<close>

record utterance =
  utterance_text :: string
  utterance_start :: double
  utterance_speaker :: string

record transcript_response =
  transcript_id :: string
  transcript_status :: transcription_status
  transcript_text :: "string option"
  transcript_utterances :: "utterance list option"
  transcript_duration :: "double option"
  transcript_language :: "string option"

text \<open>What follows the header lines of the output: the utterances of a completed job when
  there are any, else its text when truthy, else nothing; the failure note; the note that the
  job is still processing.\<close>

datatype transcript_section =
    Utterances "utterance list"
  | PlainText string
  | NoTranscript
  | TranscriptionFailed
  | StillProcessing

definition transcript_section :: "transcript_response \<Rightarrow> transcript_section" where
  "transcript_section response =
     (if transcript_status response = Completed then
        (case transcript_utterances response of
           Some (u # us) \<Rightarrow> Utterances (u # us)
         | _ \<Rightarrow>
             (case truthy_value (transcript_text response) of
                Some t \<Rightarrow> PlainText t
              | None \<Rightarrow> NoTranscript))
      else if transcript_status response = Failed then TranscriptionFailed
      else StillProcessing)"

text \<open>The job identifier of the call and of the response, the status, the duration and the
  language as they came, and the section.\<close>

datatype transcribe_status_result =
  TranscriptionStatus string string transcription_status "double option" "string option"
    transcript_section

definition TranscribeStatusTool_execute ::
  "transcript_response env \<Rightarrow> trace \<Rightarrow> string
     \<Rightarrow> (error + transcribe_status_result) \<times> trace" where
  "TranscribeStatusTool_execute env tr jobId =
     (case request_json env tr (''/voice/transcription/'' @ jobId) no_options of
        (Inl e, tr') \<Rightarrow> (Inl e, tr')
      | (Inr response, tr') \<Rightarrow>
          (Inr (TranscriptionStatus jobId (transcript_id response) (transcript_status response)
                  (transcript_duration response) (transcript_language response)
                  (transcript_section response)), tr'))"

subsection \<open>\<^verbatim>\<open>VaultCreateTool.execute\<close>\<close>

record vault_create_params =
  vc_name :: string
  vc_description :: "string option"
  vc_enable_graph :: "bool option"

record vault_create_response =
  created_id :: string
  created_name :: string
  created_description :: "string option"
  created_region :: string
  created_createdAt :: string

definition vault_create_options :: "vault_create_params \<Rightarrow> options" where
  "vault_create_options p =
     no_options\<lparr>opt_method := Some POST,
       opt_body := Some (JObj (object_literal
         [(''name'', Some (JStr (vc_name p))),
          (''description'', map_option JStr (vc_description p)),
          (''enableGraph'', Some (JBool (nullish_default (vc_enable_graph p) True)))]))\<rparr>"

text \<open>The identifier, the name, the description when truthy, the region and the creation
  time of the vault.\<close>

datatype vault_create_result = VaultCreated string string "string option" string string

definition VaultCreateTool_execute ::
  "vault_create_response env \<Rightarrow> trace \<Rightarrow> vault_create_params
     \<Rightarrow> (error + vault_create_result) \<times> trace" where
  "VaultCreateTool_execute env tr params =
     (case request_json env tr ''/vault'' (vault_create_options params) of
        (Inl e, tr') \<Rightarrow> (Inl e, tr')
      | (Inr response, tr') \<Rightarrow>
          (Inr (VaultCreated (created_id response) (created_name response)
                  (truthy_value (created_description response)) (created_region response)
                  (created_createdAt response)), tr'))"

subsection \<open>\<^verbatim>\<open>VaultListTool.execute\<close>\<close>

record vault_entry =
  vault_entry_id :: string
  vault_entry_name :: string
  vault_entry_description :: "string option"
  vault_entry_enableGraph :: bool
  vault_entry_totalObjects :: nat
  vault_entry_totalBytes :: nat
  vault_entry_createdAt :: string

record vault_list_response =
  vaults :: "vault_entry list"

datatype vault_list_result = NoVaultsFound | VaultsFound "vault_entry list"

definition VaultListTool_execute ::
  "vault_list_response env \<Rightarrow> trace \<Rightarrow> (error + vault_list_result) \<times> trace" where
  "VaultListTool_execute env tr =
     (case request_json env tr ''/vault'' no_options of
        (Inl e, tr') \<Rightarrow> (Inl e, tr')
      | (Inr response, tr') \<Rightarrow>
          if length (vaults response) = 0 then (Inr NoVaultsFound, tr')
          else (Inr (VaultsFound (vaults response)), tr'))"

subsection \<open>\<^verbatim>\<open>VaultIngestTool.execute\<close>\<close>

record vault_ingest_params =
  vi_vault_id :: string
  vi_object_id :: string

record vault_ingest_response =
  ingest_response_status :: string
  ingest_response_message :: "string option"

text \<open>The vault, the object, the status and the message when truthy.\<close>

datatype vault_ingest_result = IngestionStarted string string string "string option"

definition VaultIngestTool_execute ::
  "vault_ingest_response env \<Rightarrow> trace \<Rightarrow> vault_ingest_params
     \<Rightarrow> (error + vault_ingest_result) \<times> trace" where
  "VaultIngestTool_execute env tr params =
     (case request_json env tr
             (''/vault/'' @ vi_vault_id params @ ''/ingest/'' @ vi_object_id params)
             (no_options\<lparr>opt_method := Some POST\<rparr>) of
        (Inl e, tr') \<Rightarrow> (Inl e, tr')
      | (Inr response, tr') \<Rightarrow>
          (Inr (IngestionStarted (vi_vault_id params) (vi_object_id params)
                  (ingest_response_status response)
                  (truthy_value (ingest_response_message response))), tr'))"

subsection \<open>\<^verbatim>\<open>VaultObjectsListTool.execute\<close>\<close>

datatype ingestion_status =
  IngestionPending | IngestionProcessing | IngestionCompleted | IngestionFailed

record vault_object =
  vault_object_id :: string
  vault_object_filename :: string
  vault_object_contentType :: string
  vault_object_sizeBytes :: nat
  vault_object_ingestionStatus :: ingestion_status
  vault_object_pageCount :: "nat option"
  vault_object_textLength :: "nat option"
  vault_object_chunkCount :: "nat option"
  vault_object_tags :: "string list option"
  vault_object_createdAt :: string

record vault_objects_response =
  vault_objects :: "vault_object list"
  vault_objects_count :: nat

text \<open>No documents in the vault, or the count of the response and its objects.\<close>

datatype vault_objects_result = NoDocuments string | Documents string nat "vault_object list"

definition VaultObjectsListTool_execute ::
  "vault_objects_response env \<Rightarrow> trace \<Rightarrow> string
     \<Rightarrow> (error + vault_objects_result) \<times> trace" where
  "VaultObjectsListTool_execute env tr vault_id =
     (case request_json env tr (''/vault/'' @ vault_id @ ''/objects'') no_options of
        (Inl e, tr') \<Rightarrow> (Inl e, tr')
      | (Inr response, tr') \<Rightarrow>
          if length (vault_objects response) = 0 then (Inr (NoDocuments vault_id), tr')
          else (Inr (Documents vault_id (vault_objects_count response)
                       (vault_objects response)), tr'))"

subsection \<open>\<^verbatim>\<open>VaultObjectTextTool.execute\<close>\<close>

record vault_text_params =
  vt_vault_id :: string
  vt_object_id :: string

text \<open>The tool tests \<^verbatim>\<open>!response.text\<close>, so the text is optional here.\<close>

record vault_text_response =
  vault_text_filename :: string
  vault_text :: "string option"
  vault_text_pageCount :: "nat option"
  vault_text_textLength :: nat

text \<open>No text available, or the file name, the text length and the page count of the
  response and its text (the output shows the first 5000 characters of it).\<close>

datatype vault_text_result = NoTextAvailable | DocumentText string nat "nat option" string

definition VaultObjectTextTool_execute ::
  "vault_text_response env \<Rightarrow> trace \<Rightarrow> vault_text_params
     \<Rightarrow> (error + vault_text_result) \<times> trace" where
  "VaultObjectTextTool_execute env tr params =
     (case request_json env tr
             (''/vault/'' @ vt_vault_id params @ ''/objects/'' @ vt_object_id params @ ''/text'')
             no_options of
        (Inl e, tr') \<Rightarrow> (Inl e, tr')
      | (Inr response, tr') \<Rightarrow>
          (case truthy_value (vault_text response) of
             None \<Rightarrow> (Inr NoTextAvailable, tr')
           | Some t \<Rightarrow>
               (Inr (DocumentText (vault_text_filename response)
                       (vault_text_textLength response) (vault_text_pageCount response) t),
                tr')))"

subsection \<open>Saving a downloaded file\<close>

text \<open>
  The statements shared by the download tool and the format tool after their request:
  \<^verbatim>\<open>path.resolve\<close>, \<^verbatim>\<open>path.dirname\<close>, \<^verbatim>\<open>fs.mkdir\<close> (recursive),
  \<^verbatim>\<open>fs.writeFile\<close> and \<^verbatim>\<open>fs.stat\<close>. The result is the resolved path and the size.
\<close>

definition save_file ::
  "filesystem \<Rightarrow> trace \<Rightarrow> string \<Rightarrow> string \<Rightarrow> (error + string \<times> nat) \<times> trace" where
  "save_file fs tr save_to content =
     (let savePath = path_resolve fs save_to;
          saveDir = path_dirname fs savePath;
          tr1 = tr @ [Mkdir saveDir]
      in case mkdir fs saveDir of
           Inl e \<Rightarrow> (Inl e, tr1)
         | Inr made \<Rightarrow>
             (let tr2 = tr1 @ [WriteFile savePath content]
              in case writeFile fs savePath content of
                   Inl e \<Rightarrow> (Inl e, tr2)
                 | Inr written \<Rightarrow>
                     (case stat_size fs savePath of
                        Inl e \<Rightarrow> (Inl e, tr2)
                      | Inr n \<Rightarrow> (Inr (savePath, n), tr2))))"

subsection \<open>\<^verbatim>\<open>VaultObjectDownloadTool.execute\<close>\<close>

record vault_download_params =
  vd_vault_id :: string
  vd_object_id :: string
  vd_save_to :: string

text \<open>The vault, the object, the path and the size of the saved file.\<close>

datatype vault_download_result = Downloaded string string string nat

text \<open>The request asks for the bytes of the response; the other shapes cannot arise and are
  an error in the model.\<close>

definition VaultObjectDownloadTool_execute ::
  "'a env \<Rightarrow> filesystem \<Rightarrow> trace \<Rightarrow> vault_download_params
     \<Rightarrow> (error + vault_download_result) \<times> trace" where
  "VaultObjectDownloadTool_execute env fs tr params =
     (case request env tr
             (''/vault/'' @ vd_vault_id params @ ''/objects/'' @ vd_object_id params
                @ ''/download'')
             (no_options\<lparr>opt_responseType := Some Arraybuffer\<rparr>) of
        (Inl e, tr') \<Rightarrow> (Inl e, tr')
      | (Inr (BufferData response), tr') \<Rightarrow>
          (case save_file fs tr' (vd_save_to params) response of
             (Inl e, tr'') \<Rightarrow> (Inl e, tr'')
           | (Inr (savePath, n), tr'') \<Rightarrow>
               (Inr (Downloaded (vd_vault_id params) (vd_object_id params) savePath n), tr''))
      | (Inr other, tr') \<Rightarrow> (Inl (Thrown ''TypeError'' ''not an array buffer''), tr'))"

subsection \<open>\<^verbatim>\<open>FormatDocumentTool.execute\<close>\<close>

datatype output_format = FormatPdf | FormatDocx | FormatHtmlPreview

fun output_format_name :: "output_format \<Rightarrow> string" where
  "output_format_name FormatPdf = ''pdf''"
| "output_format_name FormatDocx = ''docx''"
| "output_format_name FormatHtmlPreview = ''html_preview''"

datatype input_format = InputMd | InputJson | InputText

fun input_format_name :: "input_format \<Rightarrow> string" where
  "input_format_name InputMd = ''md''"
| "input_format_name InputJson = ''json''"
| "input_format_name InputText = ''text''"

text \<open>\<^verbatim>\<open>variables\<close> is a record from names to strings: its entries, in order.\<close>

record format_params =
  fp_content :: string
  fp_output_format :: output_format
  fp_save_to :: string
  fp_input_format :: "input_format option"
  fp_variables :: "(string \<times> string) list option"

definition format_body :: "format_params \<Rightarrow> jsvalue" where
  "format_body p =
     JObj (object_literal
       [(''content'', Some (JStr (fp_content p))),
        (''input_format'',
           Some (JStr (input_format_name (nullish_default (fp_input_format p) InputMd)))),
        (''output_format'', Some (JStr (output_format_name (fp_output_format p)))),
        (''options'',
           (case fp_variables p of
              None \<Rightarrow> None
            | Some variables \<Rightarrow>
                if length variables > 0 then
                  Some (JObj
                    [(''components'',
                      JArr [JObj [(''content'', JStr (fp_content p)),
                                  (''variables'',
                                     JObj (map (\<lambda>(k, v). (k, JStr v)) variables))]])])
                else None))])"

definition format_options :: "format_params \<Rightarrow> options" where
  "format_options p =
     no_options\<lparr>opt_method := Some POST, opt_body := Some (format_body p),
       opt_responseType :=
         Some (if fp_output_format p = FormatHtmlPreview then Text else Arraybuffer)\<rparr>"

text \<open>The format, the path and the size of the saved file.\<close>

datatype format_result = DocumentCreated output_format string nat

text \<open>The request asks for the text of the response for an HTML preview and for its bytes
  otherwise; the parsed object cannot arise and is an error in the model.\<close>

definition FormatDocumentTool_execute ::
  "'a env \<Rightarrow> filesystem \<Rightarrow> trace \<Rightarrow> format_params \<Rightarrow> (error + format_result) \<times> trace" where
  "FormatDocumentTool_execute env fs tr params =
     (case request env tr ''/format/v1/document'' (format_options params) of
        (Inl e, tr') \<Rightarrow> (Inl e, tr')
      | (Inr (JsonData response), tr') \<Rightarrow>
          (Inl (Thrown ''TypeError'' ''not a text or an array buffer''), tr')
      | (Inr (TextData response), tr') \<Rightarrow>
          (case save_file fs tr' (fp_save_to params) response of
             (Inl e, tr'') \<Rightarrow> (Inl e, tr'')
           | (Inr (outputPath, n), tr'') \<Rightarrow>
               (Inr (DocumentCreated (fp_output_format params) outputPath n), tr''))
      | (Inr (BufferData response), tr') \<Rightarrow>
          (case save_file fs tr' (fp_save_to params) response of
             (Inl e, tr'') \<Rightarrow> (Inl e, tr'')
           | (Inr (outputPath, n), tr'') \<Rightarrow>
               (Inr (DocumentCreated (fp_output_format params) outputPath n), tr'')))"


section \<open>Example inputs\<close>

text \<open>Concrete credential sources, responses and parameters, used below to run the
  operations on explicit inputs.\<close>

definition no_sources :: credential_sources where
  "no_sources = \<lparr>THURGOOD_API_KEY = None, CASEDEV_API_KEY = None, auth_thurgood = None,
     config_apiKey = None\<rparr>"

definition example_sources :: credential_sources where
  "example_sources = no_sources\<lparr>CASEDEV_API_KEY := Some ''sk_case''\<rparr>"

text \<open>A response with the given status whose body readers all succeed.\<close>

definition example_response :: "nat \<Rightarrow> 'a \<Rightarrow> 'a response" where
  "example_response code data =
     \<lparr>status = code, statusText = ''status text'', read_text = Inr ''body text'',
      read_json = Inr data, read_arrayBuffer = Inr ''body bytes''\<rparr>"

text \<open>A remote side on which every exchange is aborted by its deadline.\<close>

definition example_abort_env :: "unit env" where
  "example_abort_env =
     \<lparr>sources = example_sources,
      net = (\<lambda>calls. Rejected (Thrown ''AbortError'' ''The operation was aborted.''))\<rparr>"

definition example_no_key_env :: "unit env" where
  "example_no_key_env =
     \<lparr>sources = no_sources, net = (\<lambda>calls. Resolved (example_response 200 ()))\<rparr>"

text \<open>
  Four chunks: the plain score 0.9 and the hybrid score 0.125; no score; the plain score 0.75
  only; the hybrid score 0.145. The doubles that the literals 0.9 and 0.145 parse to are
  \<open>8106479329266893 * 2 ^ - 53\<close> and \<open>5224175567749775 * 2 ^ - 55\<close>.
\<close>

definition example_chunks :: "chunk list" where
  "example_chunks =
     [\<lparr>chunk_text = ''first'', object_id = ''obj_1'', chunk_index = Some 4,
        score = Some (Finite 8106479329266893 (- 53)), hybridScore = Some (Finite 1 (- 3))\<rparr>,
      \<lparr>chunk_text = ''second'', object_id = ''obj_2'', chunk_index = None,
        score = None, hybridScore = None\<rparr>,
      \<lparr>chunk_text = ''third'', object_id = ''obj_1'', chunk_index = Some 0,
        score = Some (Finite 3 (- 2)), hybridScore = None\<rparr>,
      \<lparr>chunk_text = ''fourth'', object_id = ''obj_3'', chunk_index = Some 1,
        score = None, hybridScore = Some (Finite 5224175567749775 (- 55))\<rparr>]"

text \<open>Two chunks with the hybrid scores 0.175 and 0.145, the doubles
  \<open>6305039478318694 * 2 ^ - 55\<close> and \<open>5224175567749775 * 2 ^ - 55\<close>.\<close>

definition example_rounding_chunks :: "chunk list" where
  "example_rounding_chunks =
     [\<lparr>chunk_text = ''clause'', object_id = ''obj_1'', chunk_index = Some 0,
        score = None, hybridScore = Some (Finite 6305039478318694 (- 55))\<rparr>,
      \<lparr>chunk_text = ''recital'', object_id = ''obj_1'', chunk_index = Some 1,
        score = None, hybridScore = Some (Finite 5224175567749775 (- 55))\<rparr>]"

definition example_rounding_env :: "search_response env" where
  "example_rounding_env =
     \<lparr>sources = example_sources,
      net = (\<lambda>calls. Resolved (example_response 200
               \<lparr>response_method = ''hybrid'', response_text = None,
                chunks = Some example_rounding_chunks, response_sources = None\<rparr>))\<rparr>"

definition example_search_response :: search_response where
  "example_search_response =
     \<lparr>response_method = ''hybrid'', response_text = None,
      chunks = Some example_chunks, response_sources = None\<rparr>"

definition example_search_env :: "search_response env" where
  "example_search_env =
     \<lparr>sources = example_sources,
      net = (\<lambda>calls. Resolved (example_response 200 example_search_response))\<rparr>"

definition example_search :: search_params where
  "example_search = \<lparr>sp_vault_id = ''vault_abc'', sp_query = ''termination clause'',
     sp_method = None, sp_top_k = Some 500, sp_object_id = None\<rparr>"

definition example_research_env :: "research_response env" where
  "example_research_env =
     \<lparr>sources = example_sources,
      net = (\<lambda>calls. Resolved (example_response 200
               \<lparr>researchId = ''res_1'', model = ''normal'', results = None\<rparr>))\<rparr>"

definition example_transcribe_env :: "transcription_response env" where
  "example_transcribe_env =
     \<lparr>sources = example_sources,
      net = (\<lambda>calls. Resolved (example_response 200 \<lparr>job_id = ''job_1'', job_status = Queued\<rparr>))\<rparr>"

text \<open>A vault identifier without an object identifier and without an audio URL.\<close>

definition example_neither :: transcribe_params where
  "example_neither = \<lparr>tp_vault_id = Some ''vault_abc'', tp_object_id = None, tp_audio_url = None,
     tp_format = None, tp_language_code = None, tp_speaker_labels = None,
     tp_speakers_expected = None, tp_word_boost = None\<rparr>"

text \<open>The vault pair and an audio URL together.\<close>

definition example_both :: transcribe_params where
  "example_both = example_neither\<lparr>tp_object_id := Some ''obj_123'',
     tp_audio_url := Some ''https://example.com/deposition.mp3''\<rparr>"

definition example_fs :: filesystem where
  "example_fs =
     \<lparr>path_resolve = (\<lambda>p. p),
      path_basename = (\<lambda>p. ''deposition.MP3''),
      path_extname = (\<lambda>p. ''.MP3''),
      path_dirname = (\<lambda>p. ''/cases''),
      readFile = (\<lambda>p. Inr ''audio bytes''),
      stat_size = (\<lambda>p. Inr 11),
      mkdir = (\<lambda>p. Inr ()),
      writeFile = (\<lambda>p content. Inr ())\<rparr>"

definition example_upload :: upload_params where
  "example_upload = \<lparr>up_vault_id = ''vault_abc'', up_file_path = ''/cases/deposition.MP3'',
     up_auto_index = None\<rparr>"

definition example_file :: local_file where
  "example_file = \<lparr>filename = ''deposition.MP3'', contentType = ''audio/mpeg'',
     fileBuffer = ''audio bytes'', sizeBytes = 11\<rparr>"

definition example_slot :: upload_response where
  "example_slot = \<lparr>objectId = ''obj_123'', uploadUrl = ''https://storage.example/put/obj_123'',
     expiresIn = 3600, s3Key = ''vaults/vault_abc/obj_123'', auto_index = True,
     next_step = Some ''POST /vault/vault_abc/ingest/obj_123''\<rparr>"

text \<open>A remote side that issues the slot, accepts the transfer and answers the ingestion
  request with status 503.\<close>

fun example_soft_failure_net :: "fetch_call list \<Rightarrow> upload_response fetch_outcome" where
  "example_soft_failure_net [slot] = Resolved (example_response 200 example_slot)"
| "example_soft_failure_net [slot, put] = Resolved (example_response 200 example_slot)"
| "example_soft_failure_net calls = Resolved (example_response 503 example_slot)"

text \<open>A remote side that issues the slot and answers the transfer with status 403.\<close>

fun example_failed_transfer_net :: "fetch_call list \<Rightarrow> upload_response fetch_outcome" where
  "example_failed_transfer_net [slot] = Resolved (example_response 200 example_slot)"
| "example_failed_transfer_net calls = Resolved (example_response 403 example_slot)"

definition example_ocr_download :: ocr_download_params where
  "example_ocr_download = \<lparr>od_job_id = ''ocr_1'', od_format = Some OcrPdf,
     od_save_to = Some ''/cases/scan.pdf''\<rparr>"

section \<open>Traces of the request executor\<close>

lemma fetches_append: "fetches (tr @ tr') = fetches tr @ fetches tr'"
  by (induction tr rule: fetches.induct) simp_all

lemma running_append: "running (tr @ tr') = foldl timer_step (running tr) tr'"
  by (simp add: running_def)

lemma example_key: "getApiKey example_sources = Some ''sk_case''"
  by (simp add: getApiKey_def example_sources_def no_sources_def)

lemma request_without_key:
  "\<not> truthy (getApiKey (sources env)) \<Longrightarrow>
     request env tr endpoint options = (Inl ApiKeyNotFound, tr)"
  by (cases "getApiKey (sources env)") (simp_all add: request_def)

lemma request_json_without_key:
  "\<not> truthy (getApiKey (sources env)) \<Longrightarrow>
     request_json env tr endpoint options = (Inl ApiKeyNotFound, tr)"
  by (simp add: request_json_def request_without_key)

text \<open>With a key, \<^verbatim>\<open>request\<close> starts exactly one exchange, whatever its outcome.\<close>

lemma request_fetches:
  assumes "getApiKey (sources env) = Some apiKey" and "apiKey \<noteq> []"
  shows "fetches (snd (request env tr endpoint options)) =
           fetches tr @ [request_call apiKey (length tr) endpoint options]"
  using assms
  by (simp add: request_def Let_def fetches_append split: fetch_outcome.splits sum.splits)

lemma request_json_fetches:
  assumes "getApiKey (sources env) = Some apiKey" and "apiKey \<noteq> []"
  shows "fetches (snd (request_json env tr endpoint options)) =
           fetches tr @ [request_call apiKey (length tr) endpoint options]"
  using request_fetches [OF assms, of tr endpoint options]
  by (cases "request env tr endpoint options")
     (auto simp add: request_json_def split: sum.splits decoded.splits)

text \<open>A request that succeeds had a key and started one exchange.\<close>

lemma request_success_fetches:
  assumes "request env tr endpoint options = (Inr d, tr1)"
  shows "\<exists>apiKey. getApiKey (sources env) = Some apiKey \<and> apiKey \<noteq> []
           \<and> fetches tr1 = fetches tr @ [request_call apiKey (length tr) endpoint options]"
proof (cases "getApiKey (sources env)")
  case None
  with assms show ?thesis by (simp add: request_def)
next
  case (Some apiKey)
  with assms have n: "apiKey \<noteq> []"
    by (auto simp add: request_def)
  from request_fetches [OF Some n, of tr endpoint options] assms Some n
  show ?thesis by simp
qed

lemma request_json_success_fetches:
  assumes "request_json env tr endpoint options = (Inr d, tr1)"
  shows "\<exists>apiKey. getApiKey (sources env) = Some apiKey \<and> apiKey \<noteq> []
           \<and> fetches tr1 = fetches tr @ [request_call apiKey (length tr) endpoint options]"
proof -
  from assms have "request env tr endpoint options = (Inr (JsonData d), tr1)"
    by (cases "request env tr endpoint options")
       (auto simp add: request_json_def split: sum.splits decoded.splits)
  then show ?thesis by (rule request_success_fetches)
qed

text \<open>Without a response type, a successful request resolves with the parsed object.\<close>

lemma request_default_shape:
  "opt_responseType options = None \<Longrightarrow> fst (request env tr endpoint options) = Inr d \<Longrightarrow>
     \<exists>data. d = JsonData data"
  by (auto simp add: request_def Let_def decode_def
      split: option.splits fetch_outcome.splits sum.splits if_splits)

section \<open>The upload pipeline\<close>

lemma example_read_local: "read_local example_fs example_upload = Inr example_file"
  by (simp add: read_local_def example_fs_def example_file_def content_type_def
      toLowerCase_def contentTypeMap_def)

lemma example_slot_request:
  "net env [request_call ''sk_case'' 0 (slot_endpoint example_upload)
              (slot_options example_upload example_file)] =
     Resolved (example_response 200 example_slot)
   \<Longrightarrow> sources env = example_sources
   \<Longrightarrow> request_json env [] (slot_endpoint example_upload)
         (slot_options example_upload example_file) =
     (Inr example_slot,
      [SetTimeout 0 30000,
       Fetch (request_call ''sk_case'' 0 (slot_endpoint example_upload)
                (slot_options example_upload example_file)),
       ClearTimeout 0])"
  by (simp add: request_json_def request_def example_key Let_def decode_def ok_def
      example_response_def slot_options_def no_options_def)

text \<open>
  Claim C1. Whenever the file was read, the slot was issued, the transfer to the storage URL
  succeeded, the ingestion request was issued (the slot names a next step and asks for
  indexing) and that request failed with any error \<open>e\<close>, the upload returns a result and
  not an error; the ingestion line of the result is \<^verbatim>\<open>failed to start\<close> and its object
  identifier is the one of the slot.
\<close>

theorem upload_soft_ingest_failure:
  assumes "read_local fs p = Inr file"
    and "request_json env tr (slot_endpoint p) (slot_options p file) = (Inr u, tr1)"
    and "transfer env tr1 u file = (Inr (), tr2)"
    and "truthy (next_step u)" and "auto_index u"
    and "request env tr2 (ingest_endpoint p u) ingest_options = (Inl e, tr3)"
  shows "\<exists>r. VaultUploadTool_execute env fs tr p = (Inr r, tr3)
           \<and> result_ingestion r = ''failed to start''
           \<and> result_objectId r = objectId u"
  using assms
  by (simp add: VaultUploadTool_execute_def trigger_ingestion_def upload_output_def)

theorem upload_soft_ingest_failure_witness:
  "\<exists>r tr'. VaultUploadTool_execute
        \<lparr>sources = example_sources, net = example_soft_failure_net\<rparr> example_fs [] example_upload
      = (Inr r, tr')
     \<and> result_ingestion r = ''failed to start'' \<and> result_objectId r = ''obj_123''
     \<and> length (fetches tr') = 3"
proof -
  let ?env = "\<lparr>sources = example_sources, net = example_soft_failure_net\<rparr>"
  let ?slot = "request_call ''sk_case'' 0 (slot_endpoint example_upload)
                 (slot_options example_upload example_file)"
  let ?tr1 = "[SetTimeout 0 30000, Fetch ?slot, ClearTimeout 0]"
  let ?tr2 = "?tr1 @ [Fetch (transfer_call example_slot example_file)]"
  let ?ingest = "request_call ''sk_case'' (length ?tr2)
                   (ingest_endpoint example_upload example_slot) ingest_options"
  let ?tr3 = "?tr2 @ [SetTimeout (length ?tr2) 30000, Fetch ?ingest,
                      ClearTimeout (length ?tr2), ClearTimeout (length ?tr2)]"
  have s: "request_json ?env [] (slot_endpoint example_upload)
             (slot_options example_upload example_file) = (Inr example_slot, ?tr1)"
    by (rule example_slot_request) simp_all
  have t: "transfer ?env ?tr1 example_slot example_file = (Inr (), ?tr2)"
    by (simp add: transfer_def Let_def ok_def example_response_def)
  have n: "truthy (next_step example_slot)" and a: "auto_index example_slot"
    by (simp_all add: example_slot_def)
  have i: "request ?env ?tr2 (ingest_endpoint example_upload example_slot) ingest_options =
      (Inl (ApiError 503 ''body text''), ?tr3)"
    by (simp add: request_def example_key Let_def decode_def ok_def example_response_def
        ingest_options_def no_options_def rethrow_def)
  from upload_soft_ingest_failure [OF example_read_local s t n a i] show ?thesis
    by (auto simp add: example_slot_def)
qed

text \<open>
  Claim C2. Whenever the file was read, the slot was issued and the storage URL answers the
  transfer with a status outside 200 to 299, the upload fails with the error that carries that
  HTTP status (class \<open>HttpError\<close>). The trace ends with the one transfer, and the exchanges
  of the whole upload are the slot request and that transfer: nothing is sent to the ingestion
  endpoint and the transfer is not repeated.
\<close>

theorem upload_failed_transfer:
  assumes "read_local fs p = Inr file"
    and "request_json env tr (slot_endpoint p) (slot_options p file) = (Inr u, tr1)"
    and "net env (fetches tr1 @ [transfer_call u file]) = Resolved r"
    and "\<not> ok r"
  shows "VaultUploadTool_execute env fs tr p =
           (Inl (S3UploadFailed (status r) (statusText r)), tr1 @ [Fetch (transfer_call u file)])
       \<and> classify (S3UploadFailed (status r) (statusText r)) = HttpError
       \<and> (\<exists>apiKey. fetches (snd (VaultUploadTool_execute env fs tr p)) =
            fetches tr @ [request_call apiKey (length tr) (slot_endpoint p) (slot_options p file),
                          transfer_call u file])"
proof -
  have t: "transfer env tr1 u file =
      (Inl (S3UploadFailed (status r) (statusText r)), tr1 @ [Fetch (transfer_call u file)])"
    using assms(3,4) by (simp add: transfer_def Let_def fetches_append)
  have x: "VaultUploadTool_execute env fs tr p =
      (Inl (S3UploadFailed (status r) (statusText r)), tr1 @ [Fetch (transfer_call u file)])"
    using assms(1,2) t by (simp add: VaultUploadTool_execute_def)
  obtain apiKey where
    "fetches tr1 =
       fetches tr @ [request_call apiKey (length tr) (slot_endpoint p) (slot_options p file)]"
    using request_json_success_fetches [OF assms(2)] by blast
  with x show ?thesis by (auto simp add: fetches_append)
qed

theorem upload_failed_transfer_witness:
  "VaultUploadTool_execute
      \<lparr>sources = example_sources, net = example_failed_transfer_net\<rparr> example_fs [] example_upload
    = (Inl (S3UploadFailed 403 ''status text''),
       [SetTimeout 0 30000,
        Fetch (request_call ''sk_case'' 0 (slot_endpoint example_upload)
                 (slot_options example_upload example_file)),
        ClearTimeout 0,
        Fetch (transfer_call example_slot example_file)])"
proof -
  let ?env = "\<lparr>sources = example_sources, net = example_failed_transfer_net\<rparr>"
  let ?slot = "request_call ''sk_case'' 0 (slot_endpoint example_upload)
                 (slot_options example_upload example_file)"
  let ?tr1 = "[SetTimeout 0 30000, Fetch ?slot, ClearTimeout 0]"
  have s: "request_json ?env [] (slot_endpoint example_upload)
             (slot_options example_upload example_file) = (Inr example_slot, ?tr1)"
    by (rule example_slot_request) simp_all
  have r: "net ?env (fetches ?tr1 @ [transfer_call example_slot example_file]) =
      Resolved (example_response 403 example_slot)"
    by simp
  have k: "\<not> ok (example_response 403 example_slot)"
    by (simp add: ok_def example_response_def)
  from upload_failed_transfer [OF example_read_local s r k] show ?thesis
    by (simp add: example_response_def)
qed

section \<open>Operations without a credential\<close>

text \<open>Each tool that goes straight to its request fails there when no key resolves.\<close>

lemma OcrProcessTool_without_key:
  "\<not> truthy (getApiKey (sources env)) \<Longrightarrow>
     OcrProcessTool_execute env tr p = (Inl ApiKeyNotFound, tr)"
  by (simp add: OcrProcessTool_execute_def request_json_without_key)

lemma OcrStatusTool_without_key:
  "\<not> truthy (getApiKey (sources env)) \<Longrightarrow>
     OcrStatusTool_execute env tr jobId = (Inl ApiKeyNotFound, tr)"
  by (simp add: OcrStatusTool_execute_def request_json_without_key)

lemma OcrDownloadTool_without_key:
  "\<not> truthy (getApiKey (sources env)) \<Longrightarrow>
     OcrDownloadTool_execute env fs base64 stringify tr p =
       (if nullish_default (od_format p) OcrText = OcrPdf \<and> \<not> truthy (od_save_to p)
        then (Inr SaveToRequired, tr) else (Inl ApiKeyNotFound, tr))"
  by (simp add: OcrDownloadTool_execute_def request_json_without_key Let_def)

lemma TranscribeTool_without_key:
  "\<not> truthy (getApiKey (sources env)) \<Longrightarrow>
     TranscribeTool_execute env tr p =
       (if \<not> isVaultMode p \<and> \<not> truthy (tp_audio_url p) then (Inr MissingParameters, tr)
        else (Inl ApiKeyNotFound, tr))"
  by (simp add: TranscribeTool_execute_def request_json_without_key)

lemma TranscribeStatusTool_without_key:
  "\<not> truthy (getApiKey (sources env)) \<Longrightarrow>
     TranscribeStatusTool_execute env tr jobId = (Inl ApiKeyNotFound, tr)"
  by (simp add: TranscribeStatusTool_execute_def request_json_without_key)

lemma VaultCreateTool_without_key:
  "\<not> truthy (getApiKey (sources env)) \<Longrightarrow>
     VaultCreateTool_execute env tr p = (Inl ApiKeyNotFound, tr)"
  by (simp add: VaultCreateTool_execute_def request_json_without_key)

lemma VaultListTool_without_key:
  "\<not> truthy (getApiKey (sources env)) \<Longrightarrow>
     VaultListTool_execute env tr = (Inl ApiKeyNotFound, tr)"
  by (simp add: VaultListTool_execute_def request_json_without_key)

lemma VaultUploadTool_without_key:
  "\<not> truthy (getApiKey (sources env)) \<Longrightarrow>
     VaultUploadTool_execute env fs tr p =
       (case read_local fs p of
          Inl e \<Rightarrow> (Inl e, tr)
        | Inr file \<Rightarrow> (Inl ApiKeyNotFound, tr))"
  by (simp add: VaultUploadTool_execute_def request_json_without_key split: sum.splits)

lemma VaultSearchTool_without_key:
  "\<not> truthy (getApiKey (sources env)) \<Longrightarrow>
     VaultSearchTool_execute env tr p = (Inl ApiKeyNotFound, tr)"
  by (simp add: VaultSearchTool_execute_def request_json_without_key)

lemma VaultIngestTool_without_key:
  "\<not> truthy (getApiKey (sources env)) \<Longrightarrow>
     VaultIngestTool_execute env tr p = (Inl ApiKeyNotFound, tr)"
  by (simp add: VaultIngestTool_execute_def request_json_without_key)

lemma VaultObjectsListTool_without_key:
  "\<not> truthy (getApiKey (sources env)) \<Longrightarrow>
     VaultObjectsListTool_execute env tr vault = (Inl ApiKeyNotFound, tr)"
  by (simp add: VaultObjectsListTool_execute_def request_json_without_key)

lemma VaultObjectTextTool_without_key:
  "\<not> truthy (getApiKey (sources env)) \<Longrightarrow>
     VaultObjectTextTool_execute env tr p = (Inl ApiKeyNotFound, tr)"
  by (simp add: VaultObjectTextTool_execute_def request_json_without_key)

lemma VaultObjectDownloadTool_without_key:
  "\<not> truthy (getApiKey (sources env)) \<Longrightarrow>
     VaultObjectDownloadTool_execute env fs tr p = (Inl ApiKeyNotFound, tr)"
  by (simp add: VaultObjectDownloadTool_execute_def request_without_key)

lemma LegalSearchTool_without_key:
  "\<not> truthy (getApiKey (sources env)) \<Longrightarrow>
     LegalSearchTool_execute env tr p = (Inl ApiKeyNotFound, tr)"
  by (simp add: LegalSearchTool_execute_def request_json_without_key)

lemma FormatDocumentTool_without_key:
  "\<not> truthy (getApiKey (sources env)) \<Longrightarrow>
     FormatDocumentTool_execute env fs tr p = (Inl ApiKeyNotFound, tr)"
  by (simp add: FormatDocumentTool_execute_def request_without_key)

text \<open>
  Claim C3, as stated, fails for the operations built on the request executor: with no
  credential anywhere, a transcription that supplies neither entry mode does not fail with
  the key-not-found error; it returns the missing-parameters result.
\<close>

theorem transcribe_without_credential_returns:
  "getApiKey (sources (example_transcribe_env\<lparr>sources := no_sources\<rparr>)) = None
   \<and> TranscribeTool_execute (example_transcribe_env\<lparr>sources := no_sources\<rparr>) []
       example_neither = (Inr MissingParameters, [])"
  by (simp add: getApiKey_def no_sources_def TranscribeTool_execute_def isVaultMode_def
      example_neither_def)

text \<open>
  Claim C3, amended. When credential resolution yields no key (\<^verbatim>\<open>undefined\<close> or the empty
  string), \<^verbatim>\<open>request\<close> fails with the key-not-found error (class \<open>AuthError\<close>) for every
  endpoint and every options argument, and the trace is unchanged: no timer is armed and no
  exchange is started. Every one of the fifteen tools then leaves the trace unchanged as
  well, and fails with that error when it reaches its first request. Twelve tools always
  reach it. Three have a local step before it that can end them first: transcription returns
  the missing-parameters result when neither entry mode is supplied, the OCR download returns
  the save-to-required result for the format \<^verbatim>\<open>pdf\<close> without \<^verbatim>\<open>save_to\<close>, and the
  upload fails with the error of the file system when the file cannot be read.
\<close>

theorem request_without_credential:
  assumes "\<not> truthy (getApiKey src)"
  shows "request \<lparr>sources = src, net = n\<rparr> tr endpoint options = (Inl ApiKeyNotFound, tr)
       \<and> classify ApiKeyNotFound = AuthError
       \<and> OcrProcessTool_execute \<lparr>sources = src, net = n1\<rparr> tr p1 = (Inl ApiKeyNotFound, tr)
       \<and> OcrStatusTool_execute \<lparr>sources = src, net = n2\<rparr> tr p2 = (Inl ApiKeyNotFound, tr)
       \<and> OcrDownloadTool_execute \<lparr>sources = src, net = n3\<rparr> fs base64 stringify tr p3 =
           (if nullish_default (od_format p3) OcrText = OcrPdf \<and> \<not> truthy (od_save_to p3)
            then (Inr SaveToRequired, tr) else (Inl ApiKeyNotFound, tr))
       \<and> TranscribeTool_execute \<lparr>sources = src, net = n4\<rparr> tr p4 =
           (if \<not> isVaultMode p4 \<and> \<not> truthy (tp_audio_url p4) then (Inr MissingParameters, tr)
            else (Inl ApiKeyNotFound, tr))
       \<and> TranscribeStatusTool_execute \<lparr>sources = src, net = n5\<rparr> tr p5 =
           (Inl ApiKeyNotFound, tr)
       \<and> VaultCreateTool_execute \<lparr>sources = src, net = n6\<rparr> tr p6 = (Inl ApiKeyNotFound, tr)
       \<and> VaultListTool_execute \<lparr>sources = src, net = n7\<rparr> tr = (Inl ApiKeyNotFound, tr)
       \<and> VaultUploadTool_execute \<lparr>sources = src, net = n8\<rparr> fs tr p8 =
           (case read_local fs p8 of
              Inl e \<Rightarrow> (Inl e, tr)
            | Inr file \<Rightarrow> (Inl ApiKeyNotFound, tr))
       \<and> VaultSearchTool_execute \<lparr>sources = src, net = n9\<rparr> tr p9 = (Inl ApiKeyNotFound, tr)
       \<and> VaultIngestTool_execute \<lparr>sources = src, net = n10\<rparr> tr p10 = (Inl ApiKeyNotFound, tr)
       \<and> VaultObjectsListTool_execute \<lparr>sources = src, net = n11\<rparr> tr p11 =
           (Inl ApiKeyNotFound, tr)
       \<and> VaultObjectTextTool_execute \<lparr>sources = src, net = n12\<rparr> tr p12 =
           (Inl ApiKeyNotFound, tr)
       \<and> VaultObjectDownloadTool_execute \<lparr>sources = src, net = n13\<rparr> fs tr p13 =
           (Inl ApiKeyNotFound, tr)
       \<and> LegalSearchTool_execute \<lparr>sources = src, net = n14\<rparr> tr p14 = (Inl ApiKeyNotFound, tr)
       \<and> FormatDocumentTool_execute \<lparr>sources = src, net = n15\<rparr> fs tr p15 =
           (Inl ApiKeyNotFound, tr)"
  using assms
  by (simp add: request_without_key OcrProcessTool_without_key OcrStatusTool_without_key
      OcrDownloadTool_without_key TranscribeTool_without_key TranscribeStatusTool_without_key
      VaultCreateTool_without_key VaultListTool_without_key VaultUploadTool_without_key
      VaultSearchTool_without_key VaultIngestTool_without_key VaultObjectsListTool_without_key
      VaultObjectTextTool_without_key VaultObjectDownloadTool_without_key
      LegalSearchTool_without_key FormatDocumentTool_without_key)

theorem request_without_credential_witness:
  "\<not> truthy (getApiKey no_sources)
   \<and> request \<lparr>sources = no_sources, net = (\<lambda>calls. Resolved (example_response 200 ()))\<rparr>
       [] ''/vault'' no_options = (Inl ApiKeyNotFound, [])
   \<and> OcrDownloadTool_execute
       \<lparr>sources = no_sources, net = (\<lambda>calls. Rejected (Thrown ''TypeError'' ''fetch failed''))\<rparr>
       example_fs (\<lambda>content. content) od_content [] example_ocr_download =
         (Inl ApiKeyNotFound, [])
   \<and> VaultUploadTool_execute
       \<lparr>sources = no_sources, net = (\<lambda>calls. Rejected (Thrown ''TypeError'' ''fetch failed''))\<rparr>
       example_fs [] example_upload = (Inl ApiKeyNotFound, [])"
proof -
  have h: "\<not> truthy (getApiKey no_sources)"
    by (simp add: getApiKey_def no_sources_def)
  note t = request_without_credential [OF h]
  have r: "request \<lparr>sources = no_sources, net = (\<lambda>calls. Resolved (example_response 200 ()))\<rparr>
      [] ''/vault'' no_options = (Inl ApiKeyNotFound, [])"
    by (rule t [THEN conjunct1])
  have d: "OcrDownloadTool_execute
      \<lparr>sources = no_sources, net = (\<lambda>calls. Rejected (Thrown ''TypeError'' ''fetch failed''))\<rparr>
      example_fs (\<lambda>content. content) od_content [] example_ocr_download =
      (if nullish_default (od_format example_ocr_download) OcrText = OcrPdf
          \<and> \<not> truthy (od_save_to example_ocr_download)
       then (Inr SaveToRequired, []) else (Inl ApiKeyNotFound, []))"
    by (rule t [THEN conjunct2, THEN conjunct2, THEN conjunct2, THEN conjunct2, THEN conjunct1])
  have u: "VaultUploadTool_execute
      \<lparr>sources = no_sources, net = (\<lambda>calls. Rejected (Thrown ''TypeError'' ''fetch failed''))\<rparr>
      example_fs [] example_upload =
      (case read_local example_fs example_upload of
         Inl e \<Rightarrow> (Inl e, [])
       | Inr file \<Rightarrow> (Inl ApiKeyNotFound, []))"
    by (rule t [THEN conjunct2, THEN conjunct2, THEN conjunct2, THEN conjunct2, THEN conjunct2,
          THEN conjunct2, THEN conjunct2, THEN conjunct2, THEN conjunct2, THEN conjunct1])
  have f: "\<exists>file. read_local example_fs example_upload = Inr file"
    by (simp add: read_local_def example_fs_def)
  from h r d u f show ?thesis
    by (auto simp add: example_ocr_download_def)
qed

section \<open>Credential precedence\<close>

text \<open>
  When \<^verbatim>\<open>THURGOOD_API_KEY\<close> is unset or not empty, resolution follows the precedence:
  that variable, else a non-empty \<^verbatim>\<open>CASEDEV_API_KEY\<close>, else the key of an auth record of
  kind \<^verbatim>\<open>api\<close>, else a non-empty configured key, else nothing.
\<close>

lemma getApiKey_precedence:
  assumes "THURGOOD_API_KEY src \<noteq> Some []"
  shows "getApiKey src =
     (case THURGOOD_API_KEY src of
        Some k \<Rightarrow> Some k
      | None \<Rightarrow>
          (if truthy (CASEDEV_API_KEY src) then CASEDEV_API_KEY src
           else
             (case auth_thurgood src of
                Some (Api key) \<Rightarrow> Some key
              | _ \<Rightarrow> (if truthy (config_apiKey src) then config_apiKey src else None))))"
  using assms by (auto simp add: getApiKey_def split: option.splits auth_info.splits)

text \<open>
  Claim C4. The claim asks for the highest-precedence present source. With
  \<^verbatim>\<open>THURGOOD_API_KEY\<close> set to the empty string and \<^verbatim>\<open>CASEDEV_API_KEY\<close> set to a key,
  no auth record and no configured key, \<^verbatim>\<open>getApiKey\<close> returns \<^verbatim>\<open>undefined\<close>: the
  operator \<^verbatim>\<open>??\<close> keeps the empty string, and the test \<^verbatim>\<open>if (envKey)\<close> then passes over
  both variables.
\<close>

theorem getApiKey_empty_THURGOOD_masks_CASEDEV:
  "getApiKey \<lparr>THURGOOD_API_KEY = Some '''', CASEDEV_API_KEY = Some ''sk_case'',
              auth_thurgood = None, config_apiKey = None\<rparr> = None"
  by (simp add: getApiKey_def)

section \<open>Vault search\<close>

lemma VaultSearchTool_fetches:
  assumes "getApiKey (sources env) = Some apiKey" and "apiKey \<noteq> []"
  shows "fetches (snd (VaultSearchTool_execute env tr p)) =
     fetches tr @ [request_call apiKey (length tr) (search_endpoint p) (search_options p)]"
  using request_json_fetches [OF assms, of tr "search_endpoint p" "search_options p"]
  by (cases "request_json env tr (search_endpoint p) (search_options p)")
     (auto simp add: VaultSearchTool_execute_def split: sum.splits)

lemma search_call_body:
  "body (request_call apiKey i (search_endpoint p) (search_options p)) =
     Some (JsonText (search_body p))"
  by (simp add: request_call_def search_options_def no_options_def search_body_def)

lemma search_body_topK: "property ''topK'' (search_body p) = Some (JNum (search_topK p))"
  by (simp add: search_body_def)

text \<open>
  Claim C5. With a key, a vault search starts one exchange; its body is the serialised search
  body, whose \<^verbatim>\<open>topK\<close> property is a number between 1 and 100, whatever \<^verbatim>\<open>top_k\<close> the
  caller gave (or none). The input 500 gives 100 and the input 0 gives 1.
\<close>

theorem search_topK_clamped:
  assumes "getApiKey (sources env) = Some apiKey" and "apiKey \<noteq> []"
  shows "\<exists>call. fetches (snd (VaultSearchTool_execute env tr p)) = fetches tr @ [call]
           \<and> body call = Some (JsonText (search_body p))
           \<and> property ''topK'' (search_body p) = Some (JNum (search_topK p))
           \<and> 1 \<le> search_topK p \<and> search_topK p \<le> 100
           \<and> search_topK (p\<lparr>sp_top_k := Some 500\<rparr>) = 100
           \<and> search_topK (p\<lparr>sp_top_k := Some 0\<rparr>) = 1"
  using VaultSearchTool_fetches [OF assms, of tr p]
  by (simp add: search_call_body search_body_topK search_topK_def)

theorem search_topK_clamped_witness:
  "getApiKey (sources example_search_env) = Some ''sk_case''
   \<and> (\<exists>call. fetches (snd (VaultSearchTool_execute example_search_env [] example_search)) = [call]
          \<and> body call = Some (JsonText (search_body example_search))
          \<and> property ''topK'' (search_body example_search) = Some (JNum 100))"
proof -
  have k: "getApiKey (sources example_search_env) = Some ''sk_case''"
    by (simp add: example_search_env_def example_key)
  have n: "''sk_case'' \<noteq> []" by simp
  have t: "search_topK example_search = 100"
    by (simp add: search_topK_def example_search_def)
  show ?thesis
    using k t search_topK_clamped [OF k n, of "[]" example_search] by auto
qed

text \<open>
  Claim C10. With a key, a vault search called without \<^verbatim>\<open>top_k\<close> starts one exchange whose
  body has the \<^verbatim>\<open>topK\<close> property 10.
\<close>

theorem search_topK_default:
  assumes "getApiKey (sources env) = Some apiKey" and "apiKey \<noteq> []" and "sp_top_k p = None"
  shows "\<exists>call b. fetches (snd (VaultSearchTool_execute env tr p)) = fetches tr @ [call]
           \<and> body call = Some (JsonText b) \<and> property ''topK'' b = Some (JNum 10)"
  using VaultSearchTool_fetches [OF assms(1,2), of tr p] assms(3)
  by (simp add: search_call_body search_body_topK search_topK_def)

theorem search_topK_default_witness:
  "getApiKey (sources example_search_env) = Some ''sk_case''
   \<and> sp_top_k (example_search\<lparr>sp_top_k := None\<rparr>) = None
   \<and> (\<exists>call b. fetches (snd (VaultSearchTool_execute example_search_env []
                                (example_search\<lparr>sp_top_k := None\<rparr>))) = [call]
          \<and> body call = Some (JsonText b) \<and> property ''topK'' b = Some (JNum 10))"
proof -
  have k: "getApiKey (sources example_search_env) = Some ''sk_case''"
    by (simp add: example_search_env_def example_key)
  have n: "''sk_case'' \<noteq> []" by simp
  have t: "sp_top_k (example_search\<lparr>sp_top_k := None\<rparr>) = None" by simp
  show ?thesis
    using k t search_topK_default [OF k n t, of "[]"] by simp
qed

text \<open>\<^verbatim>\<open>Math.round\<close> is the rounding of the exact value, halves upwards.\<close>

lemma round_of_int_div:
  "0 < s \<Longrightarrow> round (real_of_int a / 2 ^ s) = (a + 2 ^ (s - 1)) div 2 ^ s"
proof -
  assume s: "0 < s"
  have p: "(2::real) ^ s = 2 * 2 ^ (s - 1)"
    using s by (cases s) simp_all
  have "real_of_int a / 2 ^ s + 1 / 2 = real_of_int (a + 2 ^ (s - 1)) / real_of_int (2 ^ s)"
    by (simp add: p add_divide_distrib)
  then have "round (real_of_int a / 2 ^ s) =
      \<lfloor>real_of_int (a + 2 ^ (s - 1)) / real_of_int (2 ^ s)\<rfloor>"
    by (simp only: round_def)
  also have "\<dots> = (a + 2 ^ (s - 1)) div 2 ^ s"
    by (rule floor_divide_of_int_eq)
  finally show ?thesis .
qed

lemma Math_round_value: "Math_round (Finite m e) = Finite (round (dyadic m e)) 0"
proof (cases "0 \<le> e")
  case True
  have "round (real_of_int (m * 2 ^ nat e)) = m * 2 ^ nat e"
    by (rule round_of_int)
  with True show ?thesis by (simp add: dyadic_def)
next
  case False
  then have "0 < nat (- e)" by simp
  from round_of_int_div [OF this, of m] False show ?thesis
    by (simp add: dyadic_def)
qed

text \<open>The exact product with 100.\<close>

lemma dyadic_times100: "dyadic (m * 25) (e + 2) = 100 * dyadic m e"
proof -
  consider "0 \<le> e" | "e = - 1" | "e = - 2" | "e < - 2" by linarith
  then show ?thesis
  proof cases
    case 1
    then have "nat (e + 2) = nat e + 2" by simp
    with 1 show ?thesis by (simp add: dyadic_def)
  next
    case 2
    then show ?thesis by (simp add: dyadic_def)
  next
    case 3
    then show ?thesis by (simp add: dyadic_def)
  next
    case 4
    then have "nat (- e) = nat (- (e + 2)) + 2" by simp
    with 4 show ?thesis by (simp add: dyadic_def)
  qed
qed

text \<open>When the exact product has at most 53 binary digits and is in range, the double
  product is the exact product.\<close>

lemma times100_exact:
  assumes "bit_length \<bar>m * 25\<bar> \<le> 53" and "- 1076 \<le> e"
    and "bit_length \<bar>m * 25\<bar> + e + 2 \<le> 1024"
  shows "Math_round (times100 (Finite m e)) = Finite (round (100 * dyadic m e)) 0"
proof (cases "m = 0")
  case True
  then show ?thesis by (simp add: round_to_double_def dyadic_def)
next
  case False
  with assms have "times100 (Finite m e) = Finite (m * 25) (e + 2)"
    by (simp add: round_to_double_def Let_def)
  then show ?thesis
    by (simp only: Math_round_value dyadic_times100)
qed

text \<open>The percentages of the example scores 0.125, 0.9, 0.75, 0.145 and 0.175.\<close>

lemma example_percentages:
  "Math_round (times100 (Finite 1 (- 3))) = Finite 13 0"
  "Math_round (times100 (Finite 8106479329266893 (- 53))) = Finite 90 0"
  "Math_round (times100 (Finite 3 (- 2))) = Finite 75 0"
  "Math_round (times100 (Finite 5224175567749775 (- 55))) = Finite 14 0"
  "Math_round (times100 (Finite 6305039478318694 (- 55))) = Finite 18 0"
  by code_simp+

text \<open>The loop over the chunks, field by field.\<close>

lemma confidence_render_chunks:
  "map confidence (render_chunks i cs) =
     map (\<lambda>c. Math_round (times100 (case hybridScore c of
                                        Some h \<Rightarrow> h
                                      | None \<Rightarrow> (case score c of
                                                    Some s \<Rightarrow> s
                                                  | None \<Rightarrow> Finite 0 0)))) cs"
  by (induction cs arbitrary: i)
     (simp_all add: render_chunk_def effective_score_def split: option.splits)

lemma passage_render_chunks: "map passage (render_chunks i cs) = map chunk_text cs"
  by (induction cs arbitrary: i) (simp_all add: render_chunk_def)

lemma number_render_chunks:
  "map result_number (render_chunks i cs) = [i + 1..<i + 1 + length cs]"
  by (induction cs arbitrary: i) (simp_all add: render_chunk_def upt_rec)

lemma confidence_without_scores:
  "confidence (render_chunk i (c\<lparr>score := None, hybridScore := None\<rparr>)) = Finite 0 0"
  by (simp add: render_chunk_def effective_score_def round_to_double_def)

lemma example_search_request:
  "\<exists>tr'. request_json example_search_env [] (search_endpoint p) (search_options p) =
     (Inr example_search_response, tr')"
  by (simp add: request_json_def request_def example_search_env_def example_key Let_def
      decode_def ok_def example_response_def search_options_def no_options_def)

text \<open>
  Claim C9, as stated, fails: the confidence is not the rounding of the exact product. The
  literals 0.175 and 0.145 parse to the doubles nearest to them (both within half a unit in
  the last place, \<open>1 / 2 ^ 56\<close>). For the score 0.175 the tool shows 18, while 100 times
  that double is below 17.5 and rounds to 17: the product that the code rounds is the double
  nearest to the exact product, and that double is 17.5. For the score 0.145 the tool shows
  14, while 100 times the decimal 0.145 is 14.5 and rounds to 15. So whether \<open>e\<close> is read as
  the double or as the decimal, one of the two scores disagrees.
\<close>

theorem search_confidence_rounds_double_product:
  "VaultSearchTool_execute example_rounding_env [] example_search =
     (Inr (SearchResults ''hybrid'' None
             [\<lparr>result_number = 1, confidence = Finite 18 0,
               document = Some (''obj_1'', Some 0), passage = ''clause''\<rparr>,
              \<lparr>result_number = 2, confidence = Finite 14 0,
               document = Some (''obj_1'', Some 1), passage = ''recital''\<rparr>] []),
      [SetTimeout 0 30000,
       Fetch (request_call ''sk_case'' 0 (search_endpoint example_search)
                (search_options example_search)),
       ClearTimeout 0])
   \<and> map hybridScore example_rounding_chunks =
       [Some (Finite 6305039478318694 (- 55)), Some (Finite 5224175567749775 (- 55))]
   \<and> \<bar>dyadic 6305039478318694 (- 55) - 175 / 1000\<bar> < 1 / 2 ^ 56
   \<and> round (100 * dyadic 6305039478318694 (- 55)) = 17
   \<and> \<bar>dyadic 5224175567749775 (- 55) - 145 / 1000\<bar> < 1 / 2 ^ 56
   \<and> round (100 * (145 / 1000 :: real)) = 15"
proof -
  have r: "round (100 * dyadic 6305039478318694 (- 55)) = 17"
    by (simp add: dyadic_def round_def)
  have d: "round (100 * (145 / 1000 :: real)) = 15"
    by (simp add: round_def)
  have n: "\<bar>dyadic 6305039478318694 (- 55) - 175 / 1000\<bar> < 1 / 2 ^ 56"
    "\<bar>dyadic 5224175567749775 (- 55) - 145 / 1000\<bar> < 1 / 2 ^ 56"
    by (simp_all add: dyadic_def)
  have c: "render_chunks 0 example_rounding_chunks =
      [\<lparr>result_number = 1, confidence = Finite 18 0,
        document = Some (''obj_1'', Some 0), passage = ''clause''\<rparr>,
       \<lparr>result_number = 2, confidence = Finite 14 0,
        document = Some (''obj_1'', Some 1), passage = ''recital''\<rparr>]"
    by (simp add: render_chunk_def effective_score_def example_rounding_chunks_def
        example_percentages del: times100.simps Math_round.simps)
  have x: "VaultSearchTool_execute example_rounding_env [] example_search =
     (Inr (SearchResults ''hybrid'' None (render_chunks 0 example_rounding_chunks) []),
      [SetTimeout 0 30000,
       Fetch (request_call ''sk_case'' 0 (search_endpoint example_search)
                (search_options example_search)),
       ClearTimeout 0])"
    by (simp add: VaultSearchTool_execute_def request_json_def request_def
        example_rounding_env_def example_key Let_def decode_def ok_def example_response_def
        search_options_def no_options_def search_output_def example_rounding_chunks_def
        del: render_chunks.simps)
  from r d n c x show ?thesis
    by (simp add: example_rounding_chunks_def)
qed

text \<open>
  Claim C9, amended. When the search request resolves with a response that has at least one
  chunk, the tool returns one result block per chunk, in the order of the response: the texts
  of the blocks are the texts of the chunks and the blocks are numbered from 1. The
  confidence of each block is \<^verbatim>\<open>Math.round\<close> of the double-precision product of \<open>e\<close>
  and 100, where \<open>e\<close> is the hybrid score of its chunk if present, else its plain score if
  present, else 0: the product is rounded to the nearest double before it is rounded to an
  integer. \<^verbatim>\<open>Math.round\<close> itself is exact, so the confidence is \<open>round (100 * e)\<close>
  whenever the exact product is a double (at most 53 binary digits, in range). The confidence
  is a number in every case, and 0 when both scores are absent.
\<close>

theorem search_confidence_in_backend_order:
  assumes "request_json env tr (search_endpoint p) (search_options p) = (Inr response, tr')"
    and "chunks response = Some cs" and "cs \<noteq> []"
  shows "\<exists>method analysis bs ss.
        VaultSearchTool_execute env tr p = (Inr (SearchResults method analysis bs ss), tr')
      \<and> map confidence bs =
          map (\<lambda>c. Math_round (times100 (case hybridScore c of
                                             Some h \<Rightarrow> h
                                           | None \<Rightarrow> (case score c of
                                                         Some s \<Rightarrow> s
                                                       | None \<Rightarrow> Finite 0 0)))) cs
      \<and> map passage bs = map chunk_text cs
      \<and> map result_number bs = [1..<1 + length cs]
      \<and> confidence (render_chunk i (c\<lparr>score := None, hybridScore := None\<rparr>)) = Finite 0 0
      \<and> Math_round (Finite m e) = Finite (round (dyadic m e)) 0
      \<and> (bit_length \<bar>m * 25\<bar> \<le> 53 \<and> - 1076 \<le> e \<and> bit_length \<bar>m * 25\<bar> + e + 2 \<le> 1024
           \<longrightarrow> Math_round (times100 (Finite m e)) = Finite (round (100 * dyadic m e)) 0)"
proof -
  have x: "VaultSearchTool_execute env tr p =
      (Inr (SearchResults (response_method response)
              (if truthy (response_text response) then response_text response else None)
              (render_chunks 0 cs)
              (case response_sources response of None \<Rightarrow> [] | Some ss \<Rightarrow> map render_source ss)),
       tr')"
    using assms by (simp add: VaultSearchTool_execute_def search_output_def)
  have n: "map result_number (render_chunks 0 cs) = [1..<1 + length cs]"
    using number_render_chunks [of 0 cs] by simp
  show ?thesis
    unfolding x
    by (intro exI conjI impI, rule refl, rule confidence_render_chunks,
        rule passage_render_chunks, rule n, rule confidence_without_scores,
        rule Math_round_value, elim conjE, rule times100_exact)
qed

theorem search_confidence_in_backend_order_witness:
  "\<exists>method analysis bs ss tr'.
       VaultSearchTool_execute example_search_env [] example_search =
         (Inr (SearchResults method analysis bs ss), tr')
     \<and> map confidence bs = [Finite 13 0, Finite 0 0, Finite 75 0, Finite 14 0]
     \<and> map passage bs = [''first'', ''second'', ''third'', ''fourth'']
     \<and> Math_round (times100 (Finite 1 (- 3))) = Finite (round (100 * dyadic 1 (- 3))) 0"
proof -
  obtain tr' where r:
    "request_json example_search_env [] (search_endpoint example_search)
       (search_options example_search) = (Inr example_search_response, tr')"
    using example_search_request by blast
  have c: "chunks example_search_response = Some example_chunks"
    by (simp add: example_search_response_def)
  have n: "example_chunks \<noteq> []" by (simp add: example_chunks_def)
  have b: "bit_length \<bar>1 * 25\<bar> \<le> 53 \<and> - 1076 \<le> (- 3 :: int)
           \<and> bit_length \<bar>1 * 25\<bar> + (- 3) + 2 \<le> 1024"
    by code_simp
  have z: "Math_round (times100 (Finite 0 0)) = Finite 0 0"
    by (simp add: round_to_double_def)
  from search_confidence_in_backend_order [OF r c n,
      where i = 0 and c = "hd example_chunks" and m = 1 and e = "- 3"] b
  show ?thesis
    by (auto simp add: example_chunks_def example_percentages z
        simp del: times100.simps Math_round.simps)
qed

section \<open>Deep research\<close>

text \<open>
  Claim C6. The claim asks for the balanced timeout, about 180 000 ms, when the mode is left
  unspecified. For a call without a mode the options handed to \<^verbatim>\<open>request\<close> carry the
  timeout 60 000 while the body names the model \<^verbatim>\<open>normal\<close>; on the example environment the
  timer is armed with 60 000. A call that names the mode \<^verbatim>\<open>normal\<close> gets 180 000.
\<close>

theorem research_timeout_unspecified_mode:
  "opt_timeout (research_options \<lparr>rp_query = q, rp_mode = None\<rparr>) = Some 60000
   \<and> property ''model'' (research_body \<lparr>rp_query = q, rp_mode = None\<rparr>) = Some (JStr ''normal'')
   \<and> opt_timeout (research_options \<lparr>rp_query = q, rp_mode = Some NormalMode\<rparr>) = Some 180000
   \<and> snd (LegalSearchTool_execute example_research_env []
            \<lparr>rp_query = ''HIPAA breach notification'', rp_mode = None\<rparr>) =
       [SetTimeout 0 60000,
        Fetch (request_call ''sk_case'' 0 ''/search/v1/research''
                 (research_options \<lparr>rp_query = ''HIPAA breach notification'', rp_mode = None\<rparr>)),
        ClearTimeout 0]"
  by (simp add: research_options_def research_timeout_def research_body_def no_options_def
      LegalSearchTool_execute_def request_json_def request_def example_research_env_def
      example_key Let_def decode_def ok_def example_response_def)

text \<open>The timeout does follow the mode whenever the caller names one.\<close>

lemma research_timeout_by_mode:
  "research_timeout \<lparr>rp_query = q, rp_mode = Some FastMode\<rparr> = 60000
   \<and> research_timeout \<lparr>rp_query = q, rp_mode = Some NormalMode\<rparr> = 180000
   \<and> research_timeout \<lparr>rp_query = q, rp_mode = Some ProMode\<rparr> = 360000"
  by (simp add: research_timeout_def)

section \<open>Transcription entry modes\<close>

lemma TranscribeTool_fetches:
  assumes "getApiKey (sources env) = Some apiKey" and "apiKey \<noteq> []"
    and "isVaultMode p \<or> truthy (tp_audio_url p)"
  shows "fetches (snd (TranscribeTool_execute env tr p)) =
     fetches tr @ [request_call apiKey (length tr) ''/voice/transcription'' (transcribe_options p)]"
  using request_json_fetches [OF assms(1,2), of tr "''/voice/transcription''" "transcribe_options p"]
    assms(3)
  by (cases "request_json env tr ''/voice/transcription'' (transcribe_options p)")
     (auto simp add: TranscribeTool_execute_def split: sum.splits)

text \<open>
  Claim C7, as stated, fails: an invocation that supplies the vault pair and an audio URL
  together is not refused. On the example environment it submits the job in vault mode and
  returns the started job.
\<close>

theorem transcribe_both_modes_accepted:
  "truthy (tp_vault_id example_both) \<and> truthy (tp_object_id example_both)
   \<and> truthy (tp_audio_url example_both)
   \<and> TranscribeTool_execute example_transcribe_env [] example_both =
       (Inr (VaultJobStarted ''job_1'' Queued (Some ''vault_abc'') (Some ''obj_123'')),
        [SetTimeout 0 30000,
         Fetch (request_call ''sk_case'' 0 ''/voice/transcription'' (transcribe_options example_both)),
         ClearTimeout 0])"
  by (simp add: example_both_def example_neither_def TranscribeTool_execute_def isVaultMode_def
      request_json_def request_def example_transcribe_env_def example_key Let_def decode_def
      ok_def example_response_def transcribe_options_def no_options_def)

text \<open>
  Claim C7, amended. At least one entry mode must be supplied. An invocation with neither a
  complete vault pair (\<^verbatim>\<open>vault_id\<close> and \<^verbatim>\<open>object_id\<close>, both non-empty) nor a non-empty
  \<^verbatim>\<open>audio_url\<close> returns the missing-parameters error result and leaves the trace unchanged,
  so no request is sent. An invocation with the vault pair or an audio URL (or both) is not
  refused, and with a key it starts the one transcription request. Whenever the vault pair is
  supplied the request body carries the pair and no \<^verbatim>\<open>audio_url\<close>.
\<close>

theorem transcribe_entry_mode:
  "(\<not> (truthy (tp_vault_id p) \<and> truthy (tp_object_id p)) \<and> \<not> truthy (tp_audio_url p)
      \<longrightarrow> TranscribeTool_execute env tr p = (Inr MissingParameters, tr))
   \<and> ((truthy (tp_vault_id p) \<and> truthy (tp_object_id p)) \<or> truthy (tp_audio_url p)
      \<longrightarrow> fst (TranscribeTool_execute env tr p) \<noteq> Inr MissingParameters
        \<and> (\<forall>apiKey. getApiKey (sources env) = Some apiKey \<and> apiKey \<noteq> []
              \<longrightarrow> fetches (snd (TranscribeTool_execute env tr p)) =
                    fetches tr @ [request_call apiKey (length tr) ''/voice/transcription''
                                    (transcribe_options p)]))
   \<and> (truthy (tp_vault_id p) \<and> truthy (tp_object_id p)
      \<longrightarrow> property ''vault_id'' (transcribe_body p) = map_option JStr (tp_vault_id p)
        \<and> property ''object_id'' (transcribe_body p) = map_option JStr (tp_object_id p)
        \<and> property ''audio_url'' (transcribe_body p) = None)"
proof (intro conjI impI allI)
  assume "\<not> (truthy (tp_vault_id p) \<and> truthy (tp_object_id p)) \<and> \<not> truthy (tp_audio_url p)"
  then show "TranscribeTool_execute env tr p = (Inr MissingParameters, tr)"
    by (simp add: TranscribeTool_execute_def isVaultMode_def)
next
  assume "(truthy (tp_vault_id p) \<and> truthy (tp_object_id p)) \<or> truthy (tp_audio_url p)"
  then show "fst (TranscribeTool_execute env tr p) \<noteq> Inr MissingParameters"
    by (cases "request_json env tr ''/voice/transcription'' (transcribe_options p)")
       (auto simp add: TranscribeTool_execute_def isVaultMode_def split: sum.splits)
next
  fix apiKey
  assume "(truthy (tp_vault_id p) \<and> truthy (tp_object_id p)) \<or> truthy (tp_audio_url p)"
    and "getApiKey (sources env) = Some apiKey \<and> apiKey \<noteq> []"
  then show "fetches (snd (TranscribeTool_execute env tr p)) =
      fetches tr @ [request_call apiKey (length tr) ''/voice/transcription'' (transcribe_options p)]"
    by (intro TranscribeTool_fetches) (simp_all add: isVaultMode_def)
next
  assume v: "truthy (tp_vault_id p) \<and> truthy (tp_object_id p)"
  then show "property ''vault_id'' (transcribe_body p) = map_option JStr (tp_vault_id p)"
    by (cases "tp_vault_id p") (simp_all add: transcribe_body_def isVaultMode_def)
  from v show "property ''object_id'' (transcribe_body p) = map_option JStr (tp_object_id p)"
    by (cases "tp_vault_id p"; cases "tp_object_id p")
       (simp_all add: transcribe_body_def isVaultMode_def)
  from v show "property ''audio_url'' (transcribe_body p) = None"
    by (cases "tp_vault_id p"; cases "tp_object_id p"; cases "tp_language_code p";
        cases "tp_speaker_labels p"; cases "tp_speakers_expected p"; cases "tp_word_boost p")
       (simp_all add: transcribe_body_def isVaultMode_def)
qed

theorem transcribe_entry_mode_witness:
  "TranscribeTool_execute example_transcribe_env [] example_neither = (Inr MissingParameters, [])
   \<and> fst (TranscribeTool_execute example_transcribe_env [] example_both) \<noteq> Inr MissingParameters
   \<and> fetches (snd (TranscribeTool_execute example_transcribe_env [] example_both)) =
       [request_call ''sk_case'' 0 ''/voice/transcription'' (transcribe_options example_both)]
   \<and> property ''audio_url'' (transcribe_body example_both) = None"
proof -
  have a: "\<not> (truthy (tp_vault_id example_neither) \<and> truthy (tp_object_id example_neither))
           \<and> \<not> truthy (tp_audio_url example_neither)"
    by (simp add: example_neither_def)
  have b: "truthy (tp_vault_id example_both) \<and> truthy (tp_object_id example_both)"
    by (simp add: example_both_def example_neither_def)
  have k: "getApiKey (sources example_transcribe_env) = Some ''sk_case'' \<and> ''sk_case'' \<noteq> []"
    by (simp add: example_transcribe_env_def example_key)
  show ?thesis
    using a b k transcribe_entry_mode [of example_neither example_transcribe_env "[]"]
      transcribe_entry_mode [of example_both example_transcribe_env "[]"]
    by simp
qed

section \<open>The abort timer\<close>

text \<open>
  Claim C8. Every execution of \<^verbatim>\<open>request\<close> either resolves no key, and then arms no timer
  (the trace is unchanged), or arms one timer with the configured timeout (the
  \<^verbatim>\<open>timeout\<close> option, 30 000 when it is missing). In the second case the timer is not
  armed any more when \<^verbatim>\<open>request\<close> returns, whatever the outcome of the exchange and of the
  decoding, and the timers armed before are untouched. When the exchange is rejected with an
  error named \<^verbatim>\<open>AbortError\<close>, the failure is the timeout error carrying the configured
  timeout.
\<close>

theorem request_timer_cleared:
  "(\<not> truthy (getApiKey (sources env)) \<longrightarrow> snd (request env tr endpoint options) = tr)
   \<and> (\<forall>apiKey. getApiKey (sources env) = Some apiKey \<and> apiKey \<noteq> [] \<longrightarrow>
        (\<exists>rest. snd (request env tr endpoint options) =
           tr @ SetTimeout (length tr) (nullish_default (opt_timeout options) 30000) # rest)
        \<and> running (snd (request env tr endpoint options)) = removeAll (length tr) (running tr)
        \<and> length tr \<notin> set (running (snd (request env tr endpoint options)))
        \<and> (\<forall>e. net env (fetches tr @ [request_call apiKey (length tr) endpoint options]) =
                  Rejected e \<and> error_name e = ''AbortError''
                \<longrightarrow> fst (request env tr endpoint options) =
                      Inl (TimedOut (nullish_default (opt_timeout options) 30000))))"
proof (intro conjI allI impI)
  assume "\<not> truthy (getApiKey (sources env))"
  then show "snd (request env tr endpoint options) = tr"
    by (simp add: request_without_key)
next
  fix apiKey
  assume k: "getApiKey (sources env) = Some apiKey \<and> apiKey \<noteq> []"
  then show "\<exists>rest. snd (request env tr endpoint options) =
      tr @ SetTimeout (length tr) (nullish_default (opt_timeout options) 30000) # rest"
    by (simp add: request_def Let_def split: fetch_outcome.splits sum.splits)
  from k show r: "running (snd (request env tr endpoint options)) =
      removeAll (length tr) (running tr)"
    by (simp add: request_def Let_def running_append split: fetch_outcome.splits sum.splits)
  from r show "length tr \<notin> set (running (snd (request env tr endpoint options)))"
    by simp
  fix e
  assume "net env (fetches tr @ [request_call apiKey (length tr) endpoint options]) = Rejected e
          \<and> error_name e = ''AbortError''"
  with k show "fst (request env tr endpoint options) =
      Inl (TimedOut (nullish_default (opt_timeout options) 30000))"
    by (simp add: request_def Let_def fetches_append rethrow_def)
qed

theorem request_timer_cleared_witness:
  "snd (request example_no_key_env [] ''/vault'' no_options) = []
   \<and> fst (request example_abort_env [] ''/vault'' (no_options\<lparr>opt_timeout := Some 5000\<rparr>))
       = Inl (TimedOut 5000)
   \<and> 0 \<notin> set (running (snd (request example_abort_env [] ''/vault''
                               (no_options\<lparr>opt_timeout := Some 5000\<rparr>))))"
proof -
  have h: "\<not> truthy (getApiKey (sources example_no_key_env))"
    by (simp add: example_no_key_env_def getApiKey_def no_sources_def)
  have k: "getApiKey (sources example_abort_env) = Some ''sk_case'' \<and> ''sk_case'' \<noteq> []"
    by (simp add: example_abort_env_def example_key)
  have a: "net example_abort_env (fetches [] @ [request_call ''sk_case'' (length ([] :: trace))
             ''/vault'' (no_options\<lparr>opt_timeout := Some 5000\<rparr>)]) =
           Rejected (Thrown ''AbortError'' ''The operation was aborted.'')
         \<and> error_name (Thrown ''AbortError'' ''The operation was aborted.'') = ''AbortError''"
    by (simp add: example_abort_env_def)
  show ?thesis
    using h k a request_timer_cleared [of example_no_key_env "[]" "''/vault''" no_options]
      request_timer_cleared [of example_abort_env "[]" "''/vault''"
        "no_options\<lparr>opt_timeout := Some 5000\<rparr>"]
    by (simp add: no_options_def)
qed

end
